theory Spec2Isabelle
  imports Main "HOL-Library.Word"
begin

unbundle bit_operations_syntax

section \<open>libwss: the WebSocket framing engine of wss.c\<close>

text \<open>
  A shallow embedding of \<^verbatim>\<open>wss.c\<close> and \<^verbatim>\<open>wss.h\<close>. The platform is the one the
  library is built for, Linux on a little-endian LP64 machine: \<^verbatim>\<open>char\<close> is one byte,
  \<^verbatim>\<open>unsigned short\<close> 16 bits, \<^verbatim>\<open>unsigned int\<close> 32 bits, \<^verbatim>\<open>unsigned long\<close> and
  \<^verbatim>\<open>size_t\<close> 64 bits, and a pointer cast reads or writes memory least significant
  byte first.

  A byte is an \<open>8 word\<close>. Storage that the program has not written yet (fresh from
  \<^verbatim>\<open>malloc\<close>, or grown by \<^verbatim>\<open>realloc\<close>) holds an indeterminate value; a heap cell is
  therefore a \<open>byte option\<close>, \<open>None\<close> for indeterminate. Counters and lengths are
  \<open>nat\<close>; every place where the C type narrows a value is written out with \<open>mod\<close>.
\<close>

type_synonym byte = "8 word"
type_synonym cell = "byte option"

subsection \<open>Constants of wss.h and wss.c\<close>

definition WS_MAX_PAYLOAD_LENGTH :: nat where
  "WS_MAX_PAYLOAD_LENGTH = 25 * 1024 * 1024"

definition WS_OPCODE_CONTINUE :: int where "WS_OPCODE_CONTINUE = 0x0"
definition WS_OPCODE_TEXT :: int where "WS_OPCODE_TEXT = 0x1"
definition WS_OPCODE_BINARY :: int where "WS_OPCODE_BINARY = 0x2"
definition WS_OPCODE_CLOSE :: int where "WS_OPCODE_CLOSE = 0x8"
definition WS_OPCODE_PING :: int where "WS_OPCODE_PING = 0x9"
definition WS_OPCODE_PONG :: int where "WS_OPCODE_PONG = 0xA"

text \<open>The macro \<^verbatim>\<open>WS_OPCODE_VALID(x)\<close>, on the promoted \<^verbatim>\<open>int\<close> value of its argument.\<close>

definition WS_OPCODE_VALID :: "int \<Rightarrow> bool" where
  "WS_OPCODE_VALID x =
     (x \<le> WS_OPCODE_TEXT \<or> (x \<ge> WS_OPCODE_CLOSE \<and> x \<le> WS_OPCODE_PONG))"

definition WS_CLOSE_NORMAL :: nat where "WS_CLOSE_NORMAL = 1000"
definition WS_CLOSE_PROTOCOL_ERROR :: nat where "WS_CLOSE_PROTOCOL_ERROR = 1002"
definition WS_CLOSE_LARGE_PAYLOAD :: nat where "WS_CLOSE_LARGE_PAYLOAD = 1009"
definition WS_CLOSE_UNEXPECTED :: nat where "WS_CLOSE_UNEXPECTED = 1011"

definition BIT0 :: byte where "BIT0 = 0x80"
definition BIT1 :: byte where "BIT1 = 0x40"
definition BIT2 :: byte where "BIT2 = 0x20"
definition BIT3 :: byte where "BIT3 = 0x10"

subsection \<open>Byte order\<close>

text \<open>
  \<^verbatim>\<open>htons\<close>, \<^verbatim>\<open>ntohs\<close>, \<^verbatim>\<open>htonl\<close> and \<^verbatim>\<open>ntohl\<close> on a little-endian host swap the bytes
  of their 16-bit or 32-bit argument; a wider argument is first narrowed to the
  parameter type.
\<close>

definition htons :: "nat \<Rightarrow> nat" where
  "htons x = (let v = x mod 2 ^ 16 in (v mod 256) * 256 + v div 256)"

definition ntohs :: "nat \<Rightarrow> nat" where
  "ntohs x = htons x"

definition htonl :: "nat \<Rightarrow> nat" where
  "htonl x =
     (let v = x mod 2 ^ 32 in
        (v mod 256) * 2 ^ 24 + (v div 2 ^ 8 mod 256) * 2 ^ 16
          + (v div 2 ^ 16 mod 256) * 2 ^ 8 + v div 2 ^ 24)"

definition ntohl :: "nat \<Rightarrow> nat" where
  "ntohl x = htonl x"

text \<open>
  Memory access through a cast pointer: \<^verbatim>\<open>*(unsigned short *) p\<close> and
  \<^verbatim>\<open>*(unsigned int *) p\<close>, least significant byte first. The loads take the bytes
  that lie at the pointer; the stores return the bytes written.
\<close>

definition load_u16 :: "byte list \<Rightarrow> nat" where
  "load_u16 m = unat (m ! 0) + 256 * unat (m ! 1)"

definition load_u32 :: "byte list \<Rightarrow> nat" where
  "load_u32 m =
     unat (m ! 0) + 2 ^ 8 * unat (m ! 1) + 2 ^ 16 * unat (m ! 2) + 2 ^ 24 * unat (m ! 3)"

definition store_u16 :: "nat \<Rightarrow> byte list" where
  "store_u16 v = [of_nat (v mod 256), of_nat (v div 256 mod 256)]"

definition store_u32 :: "nat \<Rightarrow> byte list" where
  "store_u32 v =
     [of_nat (v mod 256), of_nat (v div 2 ^ 8 mod 256),
      of_nat (v div 2 ^ 16 mod 256), of_nat (v div 2 ^ 24 mod 256)]"

text \<open>\<^verbatim>\<open>memcpy\<close>-like overwrite of \<open>bs\<close> into \<open>m\<close> from offset \<open>off\<close>, in bounds.\<close>

definition poke :: "'a list \<Rightarrow> nat \<Rightarrow> 'a list \<Rightarrow> 'a list" where
  "poke m off bs = take off m @ bs @ drop (off + length bs) m"

subsection \<open>The data model\<close>

datatype wss_parse_state =
    WS_PARSE_INITIAL
  | WS_PARSE_LENGTH
  | WS_PARSE_XLENGTH
  | WS_PARSE_XLENGTH2
  | WS_PARSE_MASK
  | WS_PARSE_PAYLOAD

text \<open>
  \<^verbatim>\<open>struct wss_frame\<close>. The bit-field \<^verbatim>\<open>opcode:4\<close> is a \<open>4 word\<close>; \<^verbatim>\<open>length\<close> is the
  field \<open>length_f\<close>; \<^verbatim>\<open>data\<close> is \<open>None\<close> for the null pointer and otherwise the heap
  block it points to; \<^verbatim>\<open>key\<close> has 4 bytes and \<^verbatim>\<open>buf\<close> has 8.
\<close>

record wss_frame =
  fin :: bool
  rsv1 :: bool
  rsv2 :: bool
  rsv3 :: bool
  opcode :: "4 word"
  masked :: bool
  length_f :: nat
  key :: "byte list"
  data :: "cell list option"
  buf :: "byte list"
  state :: wss_parse_state
  maxread :: nat
  datapos :: nat

text \<open>
  The two descriptors of a client are modelled by what they are connected to.

  The read side is the list of segments still to arrive: one \<^verbatim>\<open>read\<close> takes bytes from
  the first segment only, at most as many as it asks for, so a short read is a short
  segment. An empty segment is a \<^verbatim>\<open>read\<close> that returns 0 or -1 (end of stream, or an
  error). The list holds all that the peer will ever send: when no segment is left the
  peer is connected and silent, so \<^verbatim>\<open>poll\<close> times out and a \<^verbatim>\<open>read\<close> waits without
  end.

  The write side records the bytes accepted so far and answers the \<open>n\<close>-th \<^verbatim>\<open>write\<close>
  with \<open>room n\<close>: a positive number is how many bytes the descriptor accepts at most in
  that call, any other number is returned as it is (a failed write).
\<close>

type_synonym rchan = "byte list list"

record wchan =
  room :: "nat \<Rightarrow> int"
  calls :: nat
  sent :: "byte list"

text \<open>\<^verbatim>\<open>struct wss_client\<close>; the user pointer \<^verbatim>\<open>data\<close> is never read by the library.\<close>

record wss_client =
  rfd :: rchan
  wfd :: wchan
  frame :: wss_frame
  closecode :: nat

text \<open>
  The ways a call ends without returning to its caller: a failed \<^verbatim>\<open>assert\<close>, an access
  through the null pointer, an access outside a block (freed storage included), the use
  of an indeterminate value, and \<open>Blocked\<close>, a \<^verbatim>\<open>read\<close> that waits for a peer that sends
  nothing more.
\<close>

datatype error = AssertionFailed | NullPointer | OutOfBounds | Indeterminate | Blocked

subsection \<open>System calls\<close>

text \<open>
  \<^verbatim>\<open>read\<close> on the blocking read descriptor: the bytes it delivers and what is left to
  arrive, or \<open>None\<close> when the call does not return.
\<close>

fun read_fd :: "rchan \<Rightarrow> nat \<Rightarrow> (byte list \<times> rchan) option" where
  "read_fd [] n = None"
| "read_fd (c # cs) n =
     Some (if length c \<le> n then (c, cs) else (take n c, drop n c # cs))"

text \<open>
  The list given to \<^verbatim>\<open>write\<close> holds the bytes that lie at the pointer. A count beyond
  them is a read outside the object in C; the callers in this file pass a count within
  the list, and \<open>take\<close> sends no more than the list holds.
\<close>

definition write_fd :: "wchan \<Rightarrow> byte list \<Rightarrow> nat \<Rightarrow> int \<times> wchan" where
  "write_fd fd b n =
     (let r = room fd (calls fd); fd' = fd\<lparr>calls := Suc (calls fd)\<rparr> in
      if r \<le> 0 then (r, fd')
      else (int (min (nat r) n), fd'\<lparr>sent := sent fd @ take (min (nat r) n) b\<rparr>))"

subsection \<open>The frame writer\<close>

text \<open>
  \<^verbatim>\<open>full_write\<close>: the loop never moves \<^verbatim>\<open>buf\<close>, and it has no exit but \<^verbatim>\<open>len == 0\<close>. It
  may run forever, so the model returns \<open>None\<close> when the C function does not return.
\<close>

partial_function (option) full_write :: "wchan \<Rightarrow> byte list \<Rightarrow> nat \<Rightarrow> (int \<times> wchan) option" where
  "full_write fd b len =
     (if len > 0 then
        (case write_fd fd b len of
           (res, fd') \<Rightarrow>
             full_write fd' b (if res > 0 then nat ((int len - res) mod 2 ^ 32) else len))
      else Some (int len, fd))"

text \<open>
  \<^verbatim>\<open>wss_frame_write\<close>. \<open>stk\<close> is what the 10 bytes of the local array \<^verbatim>\<open>preamble\<close> hold
  on entry (the function clears the first two only). \<open>payload\<close> is \<open>None\<close> for a null
  pointer and otherwise the bytes lying at the pointer; \<open>len\<close> is a \<^verbatim>\<open>size_t\<close>, and
  \<^verbatim>\<open>full_write\<close> takes it as an \<^verbatim>\<open>unsigned int\<close>.
\<close>

definition wss_frame_write ::
  "byte list \<Rightarrow> wss_client \<Rightarrow> int \<Rightarrow> byte list option \<Rightarrow> nat \<Rightarrow> int \<Rightarrow> (int \<times> wss_client) option"
where
  "wss_frame_write stk client opc payload len fin_arg =
     (if \<not> WS_OPCODE_VALID opc then Some (- 1, client)
      else
        let p0 = poke stk 0 [0, 0];
            p1 = (if fin_arg \<noteq> 0 then p0[0 := p0 ! 0 OR BIT0] else p0);
            p2 = p1[0 := p1 ! 0 OR word_of_int opc];
            payload_len = (if len > 0xffff then 127 else if len > 125 then 126 else len) mod 256;
            p3 = p2[1 := of_nat payload_len AND 0x7f];
            p4 = (if payload_len = 126 then poke p3 2 (store_u16 (htons len))
                  else if payload_len = 127 then poke p3 2 (store_u32 (htonl len))
                  else p3);
            preamble_bytes = (if payload_len = 126 then 2 + 2
                              else if payload_len = 127 then 2 + 8 else 2)
        in
          case full_write (wfd client) p4 preamble_bytes of
            None \<Rightarrow> None
          | Some (r1, fd1) \<Rightarrow>
              (case payload of
                 None \<Rightarrow> Some (0, client\<lparr>wfd := fd1\<rparr>)
               | Some pl \<Rightarrow>
                   (case full_write fd1 pl (len mod 2 ^ 32) of
                      None \<Rightarrow> None
                    | Some (r2, fd2) \<Rightarrow> Some (0, client\<lparr>wfd := fd2\<rparr>))))"

definition wss_write ::
  "byte list \<Rightarrow> wss_client \<Rightarrow> int \<Rightarrow> byte list option \<Rightarrow> nat \<Rightarrow> (int \<times> wss_client) option"
where
  "wss_write stk client opc payload len = wss_frame_write stk client opc payload len 1"

definition wss_error_code :: "wss_client \<Rightarrow> int" where
  "wss_error_code client = int (closecode client)"

subsection \<open>The close-code codec\<close>

text \<open>
  \<^verbatim>\<open>wss_close\<close>: the guard is the source's conjunction; \<^verbatim>\<open>htons\<close> narrows the
  \<^verbatim>\<open>int\<close> code to 16 bits.
\<close>

definition wss_close :: "byte list \<Rightarrow> wss_client \<Rightarrow> int \<Rightarrow> (int \<times> wss_client) option" where
  "wss_close stk client code =
     (if code < 1000 \<and> code > 1011 \<and> code \<noteq> 1015 then Some (- 1, client)
      else wss_write stk client WS_OPCODE_CLOSE
             (Some (store_u16 (htons (nat (code mod 2 ^ 16))))) 2)"

definition wss_frame_opcode :: "wss_frame \<Rightarrow> int" where
  "wss_frame_opcode f = uint (opcode f)"

definition wss_frame_payload :: "wss_frame \<Rightarrow> cell list option" where
  "wss_frame_payload f = data f"

definition wss_frame_payload_length :: "wss_frame \<Rightarrow> nat" where
  "wss_frame_payload_length f = length_f f"

text \<open>
  \<^verbatim>\<open>wss_close_code\<close> reads an \<^verbatim>\<open>unsigned short\<close> at the payload pointer. Reading through
  a null pointer, past the block, or a cell nobody wrote has no defined result in C;
  the model returns which of these happened.
\<close>

definition wss_close_code :: "wss_frame \<Rightarrow> error + int" where
  "wss_close_code f =
     (if wss_frame_opcode f \<noteq> WS_OPCODE_CLOSE then Inr (- 1)
      else if wss_frame_payload_length f < 2 then Inr 1005
      else
        case wss_frame_payload f of
          None \<Rightarrow> Inl NullPointer
        | Some [] \<Rightarrow> Inl OutOfBounds
        | Some [c0] \<Rightarrow> Inl OutOfBounds
        | Some (None # c1 # cs) \<Rightarrow> Inl Indeterminate
        | Some (Some b0 # None # cs) \<Rightarrow> Inl Indeterminate
        | Some (Some b0 # Some b1 # cs) \<Rightarrow> Inr (int (ntohs (load_u16 [b0, b1]))))"

subsection \<open>The incremental frame parser\<close>

definition frame_init :: wss_frame where
  "frame_init =
     \<lparr>fin = False, rsv1 = False, rsv2 = False, rsv3 = False, opcode = 0, masked = False,
      length_f = 0, key = replicate 4 0, data = None, buf = replicate 8 0,
      state = WS_PARSE_INITIAL, maxread = 2, datapos = 0\<rparr>"

text \<open>
  In \<^verbatim>\<open>wss_read\<close> the pointer \<^verbatim>\<open>frame\<close> is either \<^verbatim>\<open>&client->frame\<close> or the address
  of the local \<^verbatim>\<open>frame2\<close>. The functions that take it get the pointer and both
  objects, and return both objects.
\<close>

datatype frame_ptr = Client_frame | Frame2

definition deref :: "frame_ptr \<Rightarrow> wss_client \<Rightarrow> wss_frame \<Rightarrow> wss_frame" where
  "deref p client frame2 = (case p of Client_frame \<Rightarrow> frame client | Frame2 \<Rightarrow> frame2)"

definition assign ::
  "frame_ptr \<Rightarrow> wss_frame \<Rightarrow> wss_client \<Rightarrow> wss_frame \<Rightarrow> wss_client \<times> wss_frame"
where
  "assign p f client frame2 =
     (case p of Client_frame \<Rightarrow> (client\<lparr>frame := f\<rparr>, frame2) | Frame2 \<Rightarrow> (client, f))"

text \<open>
  The macro \<^verbatim>\<open>WS_PARSE_NEXT\<close> up to its \<^verbatim>\<open>if (!res) break;\<close>, which the callers
  below spell out: leaving the \<^verbatim>\<open>switch\<close> reaches \<^verbatim>\<open>return 0\<close>.
\<close>

definition WS_PARSE_NEXT ::
  "int \<Rightarrow> wss_parse_state \<Rightarrow> nat \<Rightarrow> int \<times> int \<times> wss_frame \<Rightarrow> int \<times> int \<times> wss_frame"
where
  "WS_PARSE_NEXT consumed newstate bytes =
     (\<lambda>(pos, res, f).
        (pos + consumed, res - consumed,
         f\<lparr>state := newstate, maxread := bytes, datapos := 0\<rparr>))"

text \<open>
  The first statement of \<^verbatim>\<open>WS_NEED_BYTES\<close>: \<^verbatim>\<open>frame->datapos += res\<close>, an
  \<^verbatim>\<open>unsigned int\<close> plus an \<^verbatim>\<open>int\<close>.
\<close>

definition add_datapos :: "wss_frame \<Rightarrow> int \<Rightarrow> wss_frame" where
  "add_datapos f res = f\<lparr>datapos := nat ((int (datapos f) + res) mod 2 ^ 32)\<rparr>"

text \<open>
  The cases of the \<^verbatim>\<open>switch\<close>, last first, since a case falls through to the next.
  Each returns the function's result, the client's close code and the frame.
  The test \<^verbatim>\<open>frame->length > pow(2, 63) - 1\<close> compares in \<^verbatim>\<open>double\<close>; the length it
  sees is the result of \<^verbatim>\<open>ntohl\<close>, below \<open>2 ^ 32\<close>, which a \<^verbatim>\<open>double\<close> holds exactly.
\<close>

definition case_MASK :: "nat \<Rightarrow> wss_frame \<Rightarrow> int \<Rightarrow> int \<Rightarrow> int \<times> nat \<times> wss_frame" where
  "case_MASK cc f pos res =
     (let f1 = add_datapos f res in
      if datapos f1 < 4 then (0, cc, f1\<lparr>maxread := 4 - datapos f1\<rparr>)
      else
        let f2 = f1\<lparr>key := take 4 (buf f1)\<rparr> in
        case WS_PARSE_NEXT 4 WS_PARSE_PAYLOAD (length_f f2 mod 2 ^ 32) (pos, res, f2) of
          (pos', res', f3) \<Rightarrow> (0, cc, f3))"

definition case_XLENGTH2 :: "nat \<Rightarrow> wss_frame \<Rightarrow> int \<Rightarrow> int \<Rightarrow> int \<times> nat \<times> wss_frame" where
  "case_XLENGTH2 cc f pos res =
     (let f1 = add_datapos f res in
      if datapos f1 < 8 then (0, cc, f1\<lparr>maxread := 8 - datapos f1\<rparr>)
      else
        let f2 = f1\<lparr>length_f := ntohl (load_u32 (buf f1))\<rparr> in
        if length_f f2 > 2 ^ 63 - 1 then (- 1, cc, f2)
        else
          case WS_PARSE_NEXT 8 WS_PARSE_MASK 4 (pos, res, f2) of
            (pos', res', f3) \<Rightarrow> (0, cc, f3))"

definition case_XLENGTH :: "nat \<Rightarrow> wss_frame \<Rightarrow> int \<Rightarrow> int \<Rightarrow> int \<times> nat \<times> wss_frame" where
  "case_XLENGTH cc f pos res =
     (let f1 = add_datapos f res in
      if datapos f1 < 2 then (0, cc, f1\<lparr>maxread := 2 - datapos f1\<rparr>)
      else
        let f2 = f1\<lparr>length_f := ntohs (load_u32 (buf f1))\<rparr> in
        case WS_PARSE_NEXT 2 WS_PARSE_MASK 4 (pos, res, f2) of
          (pos', res', f3) \<Rightarrow> (0, cc, f3))"

definition case_LENGTH :: "nat \<Rightarrow> wss_frame \<Rightarrow> int \<Rightarrow> int \<Rightarrow> int \<times> nat \<times> wss_frame" where
  "case_LENGTH cc f pos res =
     (let f1 = f\<lparr>masked := (buf f ! nat pos AND BIT0 = BIT0)\<rparr> in
      if \<not> masked f1 then (- 1, WS_CLOSE_PROTOCOL_ERROR, f1)
      else
        let f2 = f1\<lparr>length_f := unat (buf f1 ! nat pos AND 0x7f)\<rparr> in
        case (if length_f f2 = 127 then WS_PARSE_NEXT 1 WS_PARSE_XLENGTH2 8 (pos, res, f2)
              else if length_f f2 = 126 then WS_PARSE_NEXT 1 WS_PARSE_XLENGTH 2 (pos, res, f2)
              else WS_PARSE_NEXT 1 WS_PARSE_MASK 1 (pos, res, f2)) of
          (pos', res', f3) \<Rightarrow>
            if res' = 0 then (0, cc, f3) else case_XLENGTH cc f3 pos' res')"

definition case_INITIAL :: "nat \<Rightarrow> wss_frame \<Rightarrow> int \<Rightarrow> int \<Rightarrow> int \<times> nat \<times> wss_frame" where
  "case_INITIAL cc f pos res =
     (let f1 = f\<lparr>fin := (buf f ! nat pos AND BIT0 = BIT0),
                 rsv1 := (buf f ! nat pos AND BIT1 = BIT1),
                 rsv2 := (buf f ! nat pos AND BIT2 = BIT2),
                 rsv3 := (buf f ! nat pos AND BIT3 = BIT3)\<rparr> in
      if rsv1 f1 \<or> rsv2 f1 \<or> rsv3 f1 then (1, WS_CLOSE_PROTOCOL_ERROR, f1)
      else
        let f2 = f1\<lparr>opcode := ucast (buf f1 ! nat pos AND 0x0f)\<rparr> in
        if \<not> WS_OPCODE_VALID (uint (opcode f2)) then (- 1, WS_CLOSE_PROTOCOL_ERROR, f2)
        else
          case WS_PARSE_NEXT 1 WS_PARSE_LENGTH 1 (pos, res, f2) of
            (pos', res', f3) \<Rightarrow>
              if res' = 0 then (0, cc, f3) else case_LENGTH cc f3 pos' res')"

text \<open>
  \<^verbatim>\<open>frame_internal_read\<close>: the assertion (its right-hand side is \<^verbatim>\<open>size_t\<close>
  arithmetic), one \<^verbatim>\<open>read\<close> into \<^verbatim>\<open>frame->buf + frame->datapos\<close>, and the \<^verbatim>\<open>switch\<close>.
  A failed assertion ends the process; an offset beyond the 8 bytes of \<^verbatim>\<open>buf\<close> is a
  write outside the array.
\<close>

definition frame_internal_read ::
  "frame_ptr \<Rightarrow> wss_client \<Rightarrow> wss_frame \<Rightarrow> error + (int \<times> wss_client \<times> wss_frame)"
where
  "frame_internal_read p client frame2 =
     (let f = deref p client frame2 in
      if \<not> (int (maxread f) \<le> (8 - int (datapos f)) mod 2 ^ 64) then Inl AssertionFailed
      else if datapos f > 8 then Inl OutOfBounds
      else
        case read_fd (rfd client) (maxread f) of
          None \<Rightarrow> Inl Blocked
        | Some (bytes, ch) \<Rightarrow>
            if int (length bytes) \<le> 0 then Inr (- 1, client\<lparr>rfd := ch\<rparr>, frame2)
            else
              let f1 = f\<lparr>buf := poke (buf f) (datapos f) bytes\<rparr>;
                  cc = closecode client;
                  res = int (length bytes)
              in
                case (case state f1 of
                        WS_PARSE_INITIAL \<Rightarrow> case_INITIAL cc f1 0 res
                      | WS_PARSE_LENGTH \<Rightarrow> case_LENGTH cc f1 0 res
                      | WS_PARSE_XLENGTH \<Rightarrow> case_XLENGTH cc f1 0 res
                      | WS_PARSE_XLENGTH2 \<Rightarrow> case_XLENGTH2 cc f1 0 res
                      | WS_PARSE_MASK \<Rightarrow> case_MASK cc f1 0 res
                      | WS_PARSE_PAYLOAD \<Rightarrow> (0, cc, f1)) of
                  (ret, cc', f2) \<Rightarrow>
                    (case assign p f2 (client\<lparr>rfd := ch, closecode := cc'\<rparr>) frame2 of
                       (client', frame2') \<Rightarrow> Inr (ret, client', frame2')))"

subsection \<open>The payload reader\<close>

text \<open>The unmasking loop \<^verbatim>\<open>for (; i < already; i++)\<close> of \<^verbatim>\<open>read_payload\<close>.\<close>

function unmask :: "byte list \<Rightarrow> cell list \<Rightarrow> nat \<Rightarrow> nat \<Rightarrow> cell list" where
  "unmask k d i already =
     (if i < already
      then unmask k (d[i := map_option (\<lambda>b. b XOR k ! (i mod 4)) (d ! i)]) (Suc i) already
      else d)"
  by pat_completeness auto
termination
  by (relation "measure (\<lambda>(k, d, i, already). already - i)") auto

text \<open>
  \<^verbatim>\<open>realloc(ptr, n)\<close> when it succeeds: the old contents up to the smaller size, the
  rest indeterminate; a null \<^verbatim>\<open>ptr\<close> makes it \<^verbatim>\<open>malloc(n)\<close>.
\<close>

definition realloc_block :: "cell list option \<Rightarrow> nat \<Rightarrow> cell list" where
  "realloc_block old n =
     (case old of
        None \<Rightarrow> replicate n None
      | Some d \<Rightarrow> take n d @ replicate (n - length d) None)"

definition malloc_block :: "nat \<Rightarrow> cell list" where
  "malloc_block n = replicate n None"

text \<open>
  \<^verbatim>\<open>free(ptr)\<close> does not change the pointer: a null pointer stays null, any other is left
  dangling. The storage it pointed to is gone, which is a block of no cells: the pointer
  is not null, and every access through it is outside the block. The allocator never
  hands out such a block, the sizes asked for in this file being at least 1.
\<close>

definition free_block :: "cell list option \<Rightarrow> cell list option" where
  "free_block ptr = (case ptr of None \<Rightarrow> None | Some d \<Rightarrow> Some [])"

definition chan_size :: "rchan \<Rightarrow> nat" where
  "chan_size ch = sum_list (map length ch)"

text \<open>
  The \<^verbatim>\<open>while (length > 0)\<close> loop of \<^verbatim>\<open>read_payload\<close>: read into
  \<^verbatim>\<open>frame->data + already\<close>, then unmask what arrived. Every turn of the loop takes
  bytes from the finite list of segments; a run that asks for more than the peer sends
  ends as \<open>Blocked\<close>, which stands for a call that never returns.
\<close>

function read_payload_loop ::
  "frame_ptr \<Rightarrow> wss_client \<Rightarrow> wss_frame \<Rightarrow> nat \<Rightarrow> nat \<Rightarrow> error + (int \<times> wss_client \<times> wss_frame)"
where
  "read_payload_loop p client frame2 already len =
     (if len > 0 then
        (case read_fd (rfd client) len of
           None \<Rightarrow> Inl Blocked
         | Some (bytes, ch) \<Rightarrow>
             if int (length bytes) \<le> 0
             then Inr (- 1, client\<lparr>rfd := ch, closecode := WS_CLOSE_PROTOCOL_ERROR\<rparr>, frame2)
             else
               (case data (deref p client frame2) of
                  None \<Rightarrow> Inl NullPointer
                | Some d \<Rightarrow>
                    if length d < already + length bytes then Inl OutOfBounds
                    else
                      (case assign p
                              ((deref p client frame2)
                                 \<lparr>data := Some (unmask (key (deref p client frame2))
                                                  (poke d already (map Some bytes))
                                                  already (already + length bytes))\<rparr>)
                              (client\<lparr>rfd := ch\<rparr>) frame2 of
                         (client', frame2') \<Rightarrow>
                           read_payload_loop p client' frame2'
                             (already + length bytes) (len - length bytes))))
      else Inr (0, client, frame2))"
  by pat_completeness auto

lemma read_fd_size:
  "read_fd ch n = Some (bytes, ch') \<Longrightarrow> chan_size ch' + length bytes = chan_size ch"
  by (cases ch) (auto simp: chan_size_def split: if_splits)

lemma read_fd_less:
  "read_fd ch n = Some (bytes, ch') \<Longrightarrow> bytes = [] \<or> chan_size ch' < chan_size ch"
  by (drule read_fd_size) (cases bytes; simp)

lemma rfd_assign: "assign p f client frame2 = (client', frame2') \<Longrightarrow> rfd client' = rfd client"
  by (auto simp: assign_def split: frame_ptr.splits)

termination read_payload_loop
  apply (relation "measure (\<lambda>(p, client, frame2, already, len). chan_size (rfd client))")
   apply simp
  apply (auto dest!: read_fd_less rfd_assign [OF sym])
  done

declare read_payload_loop.simps [simp del]
declare unmask.simps [simp del]

text \<open>
  \<^verbatim>\<open>read_payload\<close>. \<open>alloc_ok\<close> says whether the one call to the allocator succeeds.
  A failed \<^verbatim>\<open>realloc\<close> leaves the old block in place; the source then frees it and
  returns with \<^verbatim>\<open>client->frame.data\<close> still pointing at the freed storage. The sums of
  lengths are \<^verbatim>\<open>unsigned long\<close> sums of values below \<open>2 ^ 32\<close> and do not wrap.
\<close>

definition read_payload ::
  "bool \<Rightarrow> frame_ptr \<Rightarrow> wss_client \<Rightarrow> wss_frame \<Rightarrow> error + (int \<times> wss_client \<times> wss_frame)"
where
  "read_payload alloc_ok p client frame2 =
     (let len = length_f (deref p client frame2) in
      if uint (opcode (deref p client frame2)) = WS_OPCODE_CONTINUE \<and> \<not> alloc_ok
      then Inr (- 1, client\<lparr>frame := (frame client)\<lparr>data := free_block (data (frame client))\<rparr>,
                           closecode := WS_CLOSE_UNEXPECTED\<rparr>, frame2)
      else
        case (if uint (opcode (deref p client frame2)) = WS_OPCODE_CONTINUE
              then (client\<lparr>frame := (frame client)
                      \<lparr>data := Some (realloc_block (data (frame client))
                                       (length_f (frame client) + len + 1)),
                       length_f := length_f (frame client) + len\<rparr>\<rparr>, frame2)
              else assign p
                     ((deref p client frame2)
                        \<lparr>data := (if alloc_ok then Some (malloc_block (len + 1)) else None)\<rparr>)
                     client frame2) of
          (client1, frame2a) \<Rightarrow>
            (case data (frame client1) of
               None \<Rightarrow> Inl NullPointer
             | Some d \<Rightarrow>
                 if length d \<le> length_f (frame client1) then Inl OutOfBounds
                 else
                   let client2 = client1\<lparr>frame := (frame client1)
                                   \<lparr>data := Some (d[length_f (frame client1) := Some 0])\<rparr>\<rparr> in
                   if data (deref p client2 frame2a) = None
                   then Inr (- 1, client2\<lparr>closecode := WS_CLOSE_UNEXPECTED\<rparr>, frame2a)
                   else read_payload_loop p client2 frame2a 0 len))"

lemma read_payload_loop_size:
  "read_payload_loop p client frame2 already len = Inr (r, client', frame2')
   \<Longrightarrow> chan_size (rfd client') \<le> chan_size (rfd client)"
proof (induction p client frame2 already len rule: read_payload_loop.induct)
  case (1 p client frame2 already len)
  show ?case
  proof (cases "len > 0")
    case False
    with "1.prems" show ?thesis by (simp add: read_payload_loop.simps [of p client frame2 already len])
  next
    case True
    show ?thesis
    proof (cases "read_fd (rfd client) len")
      case None
      with \<open>len > 0\<close> "1.prems" show ?thesis
        by (simp add: read_payload_loop.simps [of p client frame2 already len])
    next
      case (Some got)
      obtain bytes ch where rd: "read_fd (rfd client) len = Some (bytes, ch)"
        using Some by (cases got) simp
      then have sz: "chan_size ch + length bytes = chan_size (rfd client)"
        by (rule read_fd_size)
      show ?thesis
      proof (cases "int (length bytes) \<le> 0")
        case True
        with \<open>len > 0\<close> rd "1.prems" sz show ?thesis
          by (auto simp: read_payload_loop.simps [of p client frame2 already len])
      next
        case False
        show ?thesis
        proof (cases "data (deref p client frame2)")
          case None
          with \<open>len > 0\<close> rd False "1.prems" show ?thesis
            by (simp add: read_payload_loop.simps [of p client frame2 already len])
        next
          case (Some d)
          show ?thesis
          proof (cases "length d < already + length bytes")
            case True
            with \<open>len > 0\<close> rd False Some "1.prems" show ?thesis
              by (simp add: read_payload_loop.simps [of p client frame2 already len])
          next
            case nb: False
            obtain c1 f1 where as:
              "assign p ((deref p client frame2)
                 \<lparr>data := Some (unmask (key (deref p client frame2))
                                  (poke d already (map Some bytes))
                                  already (already + length bytes))\<rparr>)
                 (client\<lparr>rfd := ch\<rparr>) frame2 = (c1, f1)"
              by (cases "assign p ((deref p client frame2)
                 \<lparr>data := Some (unmask (key (deref p client frame2))
                                  (poke d already (map Some bytes))
                                  already (already + length bytes))\<rparr>)
                 (client\<lparr>rfd := ch\<rparr>) frame2")
            from as have "rfd c1 = ch" by (auto dest: rfd_assign)
            moreover have "read_payload_loop p c1 f1 (already + length bytes) (len - length bytes)
                           = Inr (r, client', frame2')"
              using \<open>len > 0\<close> rd False Some nb as "1.prems"
              by (simp add: read_payload_loop.simps [of p client frame2 already len])
            then have "chan_size (rfd client') \<le> chan_size (rfd c1)"
              using "1.IH" [OF \<open>len > 0\<close> rd refl False Some nb as [symmetric]] by simp
            ultimately show ?thesis using sz by simp
          qed
        qed
      qed
    qed
  qed
qed

lemma read_payload_size:
  "read_payload alloc_ok p client frame2 = Inr (r, client', frame2')
   \<Longrightarrow> chan_size (rfd client') \<le> chan_size (rfd client)"
  unfolding read_payload_def Let_def
  by (auto split: if_splits prod.splits option.splits frame_ptr.splits
           simp: assign_def dest!: read_payload_loop_size)

lemma frame_internal_read_size:
  "frame_internal_read p client frame2 = Inr (0, client', frame2')
   \<Longrightarrow> chan_size (rfd client') < chan_size (rfd client)"
  unfolding frame_internal_read_def Let_def
  by (auto split: if_splits option.splits prod.splits frame_ptr.splits simp: assign_def
           dest!: read_fd_less)

subsection \<open>Reading a logical frame\<close>

text \<open>
  \<^verbatim>\<open>poll\<close> on the read descriptor: positive when a segment is pending, 0 (a timeout)
  when none is left. Time is not modelled, so the timeout is not looked at.
\<close>

definition poll_fd :: "rchan \<Rightarrow> int \<Rightarrow> int" where
  "poll_fd ch timeout = (if ch = [] then 0 else 1)"

text \<open>
  The outcome of the allocator, call by call: the head of \<open>heap\<close> says whether the next
  \<^verbatim>\<open>malloc\<close> or \<^verbatim>\<open>realloc\<close> succeeds; when the list is used up every call succeeds.
\<close>

definition alloc_ok :: "bool list \<Rightarrow> bool" where
  "alloc_ok heap = (case heap of [] \<Rightarrow> True | b # bs \<Rightarrow> b)"

text \<open>
  The \<^verbatim>\<open>for (;;)\<close> loop of \<^verbatim>\<open>wss_read\<close>. \<open>maxlen\<close> is the value of the macro
  \<^verbatim>\<open>WS_MAX_PAYLOAD_LENGTH\<close>, which an application may define before including
  \<^verbatim>\<open>wss.h\<close>. The loop state is the frame pointer, the client, the local \<^verbatim>\<open>frame2\<close>,
  \<^verbatim>\<open>full_length\<close> and \<^verbatim>\<open>ready\<close>.
\<close>

function wss_read_loop ::
  "nat \<Rightarrow> int \<Rightarrow> bool list \<Rightarrow> frame_ptr \<Rightarrow> wss_client \<Rightarrow> wss_frame \<Rightarrow> nat \<Rightarrow> int
   \<Rightarrow> error + (int \<times> wss_client)"
where
  "wss_read_loop maxlen pollms heap p client frame2 full_length ready =
     (if ready = 0 \<and>
         poll_fd (rfd client)
           (if state (deref p client frame2) = WS_PARSE_INITIAL then pollms else 1000) \<le> 0
      then
        Inr (poll_fd (rfd client)
               (if state (deref p client frame2) = WS_PARSE_INITIAL then pollms else 1000),
             if state (deref p client frame2) = WS_PARSE_INITIAL then client
             else client\<lparr>closecode := WS_CLOSE_PROTOCOL_ERROR\<rparr>)
      else
        case frame_internal_read p client frame2 of
          Inl e \<Rightarrow> Inl e
        | Inr (res, client1, frame2a) \<Rightarrow>
            if res \<noteq> 0 then Inr (res, client1)
            else if state (deref p client1 frame2a) = WS_PARSE_PAYLOAD then
              (if full_length + length_f (deref p client1 frame2a) > maxlen
               then Inr (- 1, client1\<lparr>closecode := WS_CLOSE_LARGE_PAYLOAD\<rparr>)
               else
                 case (if length_f (deref p client1 frame2a) \<noteq> 0
                       then read_payload (alloc_ok heap) p client1 frame2a
                       else Inr (res, client1, frame2a)) of
                   Inl e \<Rightarrow> Inl e
                 | Inr (res2, client2, frame2b) \<Rightarrow>
                     if res2 < 0
                     then Inr (- 1, client2\<lparr>closecode := WS_CLOSE_PROTOCOL_ERROR\<rparr>)
                     else if \<not> fin (deref p client2 frame2b) \<and>
                             (uint (opcode (deref p client2 frame2b)) = WS_OPCODE_TEXT \<or>
                              uint (opcode (deref p client2 frame2b)) = WS_OPCODE_BINARY)
                     then wss_read_loop maxlen pollms
                            (if length_f (deref p client1 frame2a) \<noteq> 0 then tl heap else heap)
                            Frame2 client2 frame_init
                            (full_length + length_f (deref p client1 frame2a)) 0
                     else Inr (1, client2))
            else wss_read_loop maxlen pollms heap p client1 frame2a full_length 0)"
  by pat_completeness auto

termination wss_read_loop
  apply (relation "measure (\<lambda>(maxlen, pollms, heap, p, client, frame2, full_length, ready).
                              chan_size (rfd client))")
    apply simp
   apply (auto split: if_splits
               dest!: frame_internal_read_size read_payload_size
                      frame_internal_read_size [OF sym] read_payload_size [OF sym])
  done

declare wss_read_loop.simps [simp del]

text \<open>
  \<^verbatim>\<open>wss_read\<close>: \<^verbatim>\<open>frame_init(&client->frame)\<close>, then the loop. The local \<^verbatim>\<open>frame2\<close> is
  not read before \<^verbatim>\<open>frame_init(&frame2)\<close>; the model starts it in that state.
\<close>

definition wss_read ::
  "nat \<Rightarrow> bool list \<Rightarrow> wss_client \<Rightarrow> int \<Rightarrow> int \<Rightarrow> error + (int \<times> wss_client)"
where
  "wss_read maxlen heap client pollms ready =
     wss_read_loop maxlen pollms heap Client_frame (client\<lparr>frame := frame_init\<rparr>)
       frame_init 0 ready"

definition wss_client_frame :: "wss_client \<Rightarrow> wss_frame" where
  "wss_client_frame client = frame client"

section \<open>Properties\<close>

subsection \<open>Fixtures and evaluation rules\<close>

text \<open>A write descriptor with room for every write, and nothing sent yet.\<close>

definition open_pipe :: wchan where
  "open_pipe = \<lparr>room = (\<lambda>n. 2 ^ 32), calls = 0, sent = []\<rparr>"

text \<open>
  What the caller of \<^verbatim>\<open>wss_read\<close> can see afterwards: the result, \<^verbatim>\<open>wss_error_code\<close>,
  opcode, payload length and payload of \<^verbatim>\<open>wss_client_frame\<close>, and what is still unread
  on the descriptor.
\<close>

definition observe ::
  "error + (int \<times> wss_client) \<Rightarrow> error + (int \<times> int \<times> int \<times> nat \<times> cell list option \<times> rchan)"
where
  "observe r =
     (case r of
        Inl e \<Rightarrow> Inl e
      | Inr (res, client) \<Rightarrow>
          Inr (res, wss_error_code client,
               wss_frame_opcode (wss_client_frame client),
               wss_frame_payload_length (wss_client_frame client),
               wss_frame_payload (wss_client_frame client),
               rfd client))"

text \<open>
  The library writes unmasked frames and reads masked ones only: it is the server side.
  What the peer does to a frame before sending it is the inverse of what the reader
  undoes: \<^verbatim>\<open>frame_internal_read\<close> takes the top bit of the second header byte as the
  mask bit and the four bytes after the length field as the key, and \<^verbatim>\<open>read_payload\<close>
  XORs payload byte \<open>i\<close> with \<^verbatim>\<open>key[i % 4]\<close>. \<open>header_size\<close> is the size of an unmasked
  header, by the 7-bit length field.
\<close>

definition xor_mask :: "byte list \<Rightarrow> byte list \<Rightarrow> byte list" where
  "xor_mask k bs = map (\<lambda>i. bs ! i XOR k ! (i mod 4)) [0..<length bs]"

definition header_size :: "byte list \<Rightarrow> nat" where
  "header_size w =
     (if unat (w ! 1 AND 0x7f) = 127 then 10 else if unat (w ! 1 AND 0x7f) = 126 then 4 else 2)"

definition masked_by_peer :: "byte list \<Rightarrow> byte list \<Rightarrow> byte list" where
  "masked_by_peer k w =
     take (header_size w) (w[1 := w ! 1 OR 0x80]) @ k @ xor_mask k (drop (header_size w) w)"

text \<open>The bytes a write call has put on the descriptor.\<close>

definition wire_of :: "(int \<times> wss_client) option \<Rightarrow> byte list" where
  "wire_of r = (case r of None \<Rightarrow> [] | Some (res, client) \<Rightarrow> sent (wfd client))"

text \<open>\<^verbatim>\<open>wss_client_new\<close> when \<^verbatim>\<open>calloc\<close> succeeds: every field zero but the descriptors.\<close>

definition wss_client_new :: "rchan \<Rightarrow> wchan \<Rightarrow> wss_client" where
  "wss_client_new r w =
     \<lparr>rfd = r, wfd = w, frame = frame_init\<lparr>maxread := 0\<rparr>, closecode = 0\<rparr>"

text \<open>Four base-256 digits, most significant first.\<close>

definition be32 :: "nat \<Rightarrow> nat \<Rightarrow> nat \<Rightarrow> nat \<Rightarrow> nat" where
  "be32 a b c d = ((a * 256 + b) * 256 + c) * 256 + d"

lemmas opcode_defs =
  WS_OPCODE_VALID_def WS_OPCODE_CONTINUE_def WS_OPCODE_TEXT_def WS_OPCODE_BINARY_def
  WS_OPCODE_CLOSE_def WS_OPCODE_PING_def WS_OPCODE_PONG_def

lemmas writer_defs =
  wss_close_def wss_write_def wss_frame_write_def opcode_defs BIT0_def
  store_u16_def store_u32_def htons_def htonl_def poke_def write_fd_def open_pipe_def Let_def

lemmas reader_defs =
  wss_read_def wss_read_loop.simps frame_internal_read_def read_payload_def
  read_payload_loop.simps unmask.simps
  case_INITIAL_def case_LENGTH_def case_XLENGTH_def case_XLENGTH2_def case_MASK_def
  WS_PARSE_NEXT_def add_datapos_def frame_init_def deref_def assign_def poll_fd_def
  alloc_ok_def realloc_block_def malloc_block_def poke_def opcode_defs
  WS_CLOSE_PROTOCOL_ERROR_def WS_CLOSE_LARGE_PAYLOAD_def WS_CLOSE_UNEXPECTED_def
  WS_MAX_PAYLOAD_LENGTH_def
  BIT0_def BIT1_def BIT2_def BIT3_def ntohs_def ntohl_def htons_def htonl_def
  load_u32_def load_u16_def
  observe_def wss_error_code_def wss_frame_opcode_def wss_client_frame_def
  wss_frame_payload_length_def wss_frame_payload_def Let_def

lemma full_write_done: "full_write fd b 0 = Some (0, fd)"
  by (simp add: full_write.simps)

lemma full_write_step:
  "0 < len \<Longrightarrow> full_write fd b len =
     (case write_fd fd b len of
        (res, fd') \<Rightarrow> full_write fd' b (if res > 0 then nat ((int len - res) mod 2 ^ 32) else len))"
  by (subst full_write.simps) simp

text \<open>
  \<^verbatim>\<open>full_write\<close> returns only with \<^verbatim>\<open>len == 0\<close>: on a descriptor where no write ever
  succeeds it returns for the empty buffer alone.
\<close>

lemma full_write_returns_only_when_drained:
  assumes "full_write fd b len = Some y"
  shows "(\<exists>n. room fd n > 0) \<or> len = 0"
proof (rule full_write.raw_induct
         [where P = "\<lambda>fd b len y. (\<exists>n. room fd n > 0) \<or> len = 0", OF _ assms])
  fix full_write' :: "wchan \<Rightarrow> byte list \<Rightarrow> nat \<Rightarrow> (int \<times> wchan) option"
  fix fd b len y
  assume IH: "\<And>fd b len y. full_write' fd b len = Some y \<Longrightarrow> (\<exists>n. room fd n > 0) \<or> len = 0"
  assume eq: "(if 0 < len
      then case write_fd fd b len of
           (res, fd') \<Rightarrow>
             full_write' fd' b (if 0 < res then nat ((int len - res) mod 2 ^ 32) else len)
      else Some (int len, fd)) = Some y"
  show "(\<exists>n. room fd n > 0) \<or> len = 0"
  proof (cases "len > 0")
    case False
    then show ?thesis by simp
  next
    case True
    obtain res fd' where w: "write_fd fd b len = (res, fd')"
      by (cases "write_fd fd b len")
    from w have rm: "room fd' = room fd"
      by (auto simp: write_fd_def Let_def split: if_splits)
    show ?thesis
    proof (cases "res > 0")
      case True
      with w have "0 < room fd (calls fd)"
        by (auto simp: write_fd_def Let_def split: if_splits)
      then show ?thesis by blast
    next
      case False
      with True w eq have "full_write' fd' b len = Some y" by simp
      from IH [OF this] rm True show ?thesis by simp
    qed
  qed
qed

lemma full_write_hard_failure:
  "full_write (open_pipe\<lparr>room := (\<lambda>n. - 1)\<rparr>) [0x61] 1 = None"
proof (cases "full_write (open_pipe\<lparr>room := (\<lambda>n. - 1)\<rparr>) [0x61] 1")
  case None
  then show ?thesis .
next
  case (Some y)
  from full_write_returns_only_when_drained [OF Some] show ?thesis by simp
qed

subsection \<open>Sending a close frame\<close>

text \<open>No code makes the guard of \<^verbatim>\<open>wss_close\<close> true: every call goes on to \<^verbatim>\<open>wss_write\<close>.\<close>

lemma wss_close_guard_never_fires:
  "wss_close stk client code =
     wss_write stk client WS_OPCODE_CLOSE (Some (store_u16 (htons (nat (code mod 2 ^ 16))))) 2"
  by (auto simp: wss_close_def)

text \<open>
  C1. The claim: \<^verbatim>\<open>wss_close\<close> rejects every code outside 1000..1011 and 1015 without
  sending anything, and for an accepted code writes a CLOSE frame whose payload is the
  code in big-endian order. The guard of the source is a conjunction that no integer
  satisfies, so nothing is rejected: for 999 and for 1012 the function returns 0 and the
  frame \<open>88 02 03 E7\<close>, respectively \<open>88 02 03 F4\<close>, is on the wire. (For 1000 the payload
  is \<open>03 E8\<close>, as claimed.)
\<close>

theorem wss_close_sends_invalid_codes:
  "wss_close stk (client\<lparr>wfd := open_pipe\<rparr>) 999 =
     Some (0, client\<lparr>wfd := open_pipe\<lparr>calls := 2, sent := [0x88, 0x02, 0x03, 0xE7]\<rparr>\<rparr>) \<and>
   wss_close stk (client\<lparr>wfd := open_pipe\<rparr>) 1012 =
     Some (0, client\<lparr>wfd := open_pipe\<lparr>calls := 2, sent := [0x88, 0x02, 0x03, 0xF4]\<rparr>\<rparr>) \<and>
   wss_close stk (client\<lparr>wfd := open_pipe\<rparr>) 1000 =
     Some (0, client\<lparr>wfd := open_pipe\<lparr>calls := 2, sent := [0x88, 0x02, 0x03, 0xE8]\<rparr>\<rparr>)"
  by (simp add: writer_defs full_write_step full_write_done)

subsection \<open>Opcodes\<close>

text \<open>
  C2. The claim: the parser and the writer accept exactly the six opcodes CONTINUATION,
  TEXT, BINARY, CLOSE, PING and PONG. The macro \<^verbatim>\<open>WS_OPCODE_VALID\<close> compares with
  \<^verbatim>\<open>WS_OPCODE_TEXT\<close> where it needs \<^verbatim>\<open>WS_OPCODE_BINARY\<close>: BINARY (2) is not valid. A
  masked BINARY frame makes \<^verbatim>\<open>wss_read\<close> fail with close code 1002, and \<^verbatim>\<open>wss_write\<close>
  refuses to send one. The writer's opcode is an \<^verbatim>\<open>int\<close>, and the macro accepts
  every negative one.
\<close>

theorem binary_opcode_is_rejected:
  "\<not> WS_OPCODE_VALID WS_OPCODE_BINARY \<and>
   observe (wss_read WS_MAX_PAYLOAD_LENGTH heap
              (client\<lparr>rfd := [[0x82, 0x81, 0, 0, 0, 0, 0x2A]]\<rparr>) pollms 0) =
     Inr (- 1, 1002, 2, 0, None, [[0, 0, 0, 0, 0x2A]]) \<and>
   wss_write stk (client\<lparr>wfd := open_pipe\<rparr>) WS_OPCODE_BINARY (Some [0x2A]) 1 =
     Some (- 1, client\<lparr>wfd := open_pipe\<rparr>) \<and>
   WS_OPCODE_VALID (- 1)"
  by (simp add: reader_defs writer_defs)

subsection \<open>Fragmented messages\<close>

lemma length_realloc_block [simp]: "length (realloc_block old n) = n"
  by (cases old) (simp_all add: realloc_block_def)

text \<open>
  A CONTINUATION frame is parsed into \<^verbatim>\<open>frame2\<close>, whose \<^verbatim>\<open>data\<close> is null after
  \<^verbatim>\<open>frame_init\<close>. For every such frame, even when the allocator succeeds,
  \<^verbatim>\<open>read_payload\<close> returns -1 with the close code for an allocation failure, having
  added the frame's length to the client's frame and read nothing.
\<close>

lemma continuation_with_payload_fails:
  assumes "uint (opcode frame2) = WS_OPCODE_CONTINUE" and "data frame2 = None"
  shows "\<exists>client'. read_payload True Frame2 client frame2 = Inr (- 1, client', frame2) \<and>
           closecode client' = WS_CLOSE_UNEXPECTED \<and>
           length_f (frame client') = length_f (frame client) + length_f frame2 \<and>
           rfd client' = rfd client"
  using assms by (simp add: read_payload_def deref_def Let_def)

text \<open>
  C3. The claim: a message of N fragments is returned by \<^verbatim>\<open>wss_read\<close> as one frame whose
  payload is the concatenation of the fragments. On the wire below are a TEXT frame
  without FIN carrying \<open>a\<close> and a final CONTINUATION frame carrying \<open>b\<close>, both masked
  with the key 0. For the second frame \<^verbatim>\<open>read_payload\<close> grows \<^verbatim>\<open>client->frame.data\<close>
  and then tests \<^verbatim>\<open>frame->data\<close>, which is the untouched null pointer of \<^verbatim>\<open>frame2\<close>:
  \<^verbatim>\<open>wss_read\<close> returns -1 with close code 1002, the payload \<open>b\<close> is still unread, and the
  client's frame claims two bytes of which it holds one.
\<close>

theorem continuation_payload_is_not_appended:
  "observe (wss_read WS_MAX_PAYLOAD_LENGTH []
              (client\<lparr>rfd := [[0x01, 0x81, 0, 0, 0, 0, 0x61,
                                 0x80, 0x81, 0, 0, 0, 0, 0x62]]\<rparr>) pollms 0) =
     Inr (- 1, 1002, 1, 2, Some [Some 0x61, Some 0, Some 0], [[0x62]])"
  by (simp add: reader_defs)

subsection \<open>Extended payload lengths\<close>

text \<open>
  C4. The claim: the 64-bit extended length is decoded from its 8 bytes as a big-endian
  integer, with no loss of precision. The source converts the first four staged bytes
  with \<^verbatim>\<open>ntohl\<close> and never looks at the last four. A masked TEXT frame that declares
  65536 payload bytes (\<open>00 00 00 00 00 01 00 00\<close>) is parsed as a frame of length 0:
  \<^verbatim>\<open>wss_read\<close> returns 1 with an empty frame.
\<close>

theorem xlength2_ignores_low_bytes:
  "observe (wss_read WS_MAX_PAYLOAD_LENGTH heap
              (client\<lparr>rfd := [[0x81, 0xFF, 0, 0, 0, 0, 0, 1, 0, 0, 1, 2, 3, 4]]\<rparr>) pollms 0) =
     Inr (1, wss_error_code client, 1, 0, None, [])"
  by (simp add: reader_defs)

text \<open>
  C5. The claim: for a payload longer than 65535 bytes the header is 0x80 + opcode, 127,
  and the length as 8 big-endian bytes. The source stores \<^verbatim>\<open>htonl(len)\<close> through an
  \<^verbatim>\<open>unsigned int\<close> pointer: the low 32 bits of the length fill the first four of the
  eight bytes, and the last four are whatever the array \<^verbatim>\<open>preamble\<close> held before
  (\<open>s6\<close> to \<open>s9\<close> below). For 65536 the field reads \<open>00 01 00 00 s6 s7 s8 s9\<close>, not
  \<open>00 00 00 00 00 01 00 00\<close>.
\<close>

theorem wss_write_64bit_length_header:
  "wss_write [s0, s1, s2, s3, s4, s5, s6, s7, s8, s9] (client\<lparr>wfd := open_pipe\<rparr>)
       WS_OPCODE_TEXT None 65536 =
     Some (0, client\<lparr>wfd := open_pipe
              \<lparr>calls := 1, sent := [0x81, 0x7F, 0, 1, 0, 0, s6, s7, s8, s9]\<rparr>\<rparr>)"
  by (simp add: writer_defs full_write_step full_write_done)

subsection \<open>Reserved bits\<close>

text \<open>
  Whichever reserved bit is set in the first byte, and whatever follows it, \<^verbatim>\<open>wss_read\<close>
  returns 1 with close code 1002 and no payload.
\<close>

lemma rsv_bit_returns_one:
  assumes "b0 AND BIT1 = BIT1 \<or> b0 AND BIT2 = BIT2 \<or> b0 AND BIT3 = BIT3"
  shows "\<exists>c. wss_read maxlen heap (client\<lparr>rfd := (b0 # rest) # segs\<rparr>) pollms ready = Inr (1, c) \<and>
             wss_error_code c = 1002 \<and> wss_frame_payload (wss_client_frame c) = None"
proof -
  consider "rest = []" | b1 where "rest = [b1]" | b1 b2 tail where "rest = b1 # b2 # tail"
    by (cases rest; cases "tl rest") auto
  then show ?thesis
  proof cases
    case 1
    with assms show ?thesis by (simp add: reader_defs)
  next
    case 2
    with assms show ?thesis by (simp add: reader_defs)
  next
    case 3
    with assms show ?thesis by (simp add: reader_defs)
  qed
qed

text \<open>
  C7. The claim: a frame with a reserved bit set makes \<^verbatim>\<open>wss_read\<close> return an error, with
  close code 1002 and no payload. \<^verbatim>\<open>frame_internal_read\<close> sets the close code and
  returns 1 where its other checks return -1, and \<^verbatim>\<open>wss_read\<close> passes the 1 on: the
  caller is told that a frame was received.
\<close>

theorem rsv_frame_returns_success:
  "observe (wss_read maxlen heap
              (client\<lparr>rfd := [[0xC1, 0x80, 0, 0, 0, 0]]\<rparr>) pollms 0) =
     Inr (1, 1002, 0, 0, None, [[0, 0, 0, 0]])"
  by (simp add: reader_defs)

subsection \<open>Decoding a close code\<close>

text \<open>
  C9. \<^verbatim>\<open>wss_close_code\<close> returns -1 for a frame that is not a CLOSE frame, 1005 for a
  CLOSE frame with fewer than two payload bytes, and otherwise the first two payload
  bytes as a big-endian 16-bit number, whatever follows them.
\<close>

theorem wss_close_code_decodes:
  "(wss_frame_opcode f \<noteq> WS_OPCODE_CLOSE \<longrightarrow> wss_close_code f = Inr (- 1)) \<and>
   (wss_frame_opcode f = WS_OPCODE_CLOSE \<and> wss_frame_payload_length f < 2
      \<longrightarrow> wss_close_code f = Inr 1005) \<and>
   (wss_frame_opcode f = WS_OPCODE_CLOSE \<and> 2 \<le> wss_frame_payload_length f \<and>
    wss_frame_payload f = Some (Some b0 # Some b1 # reason)
      \<longrightarrow> wss_close_code f = Inr (256 * uint b0 + uint b1))"
proof -
  have "unat b0 < 2 ^ LENGTH(8)" "unat b1 < 2 ^ LENGTH(8)"
    by (rule unsigned_less)+
  then have "int (ntohs (load_u16 [b0, b1])) = 256 * uint b0 + uint b1"
    by (simp add: ntohs_def htons_def load_u16_def Let_def)
  then show ?thesis
    by (simp add: wss_close_code_def)
qed

theorem wss_close_code_decodes_witness:
  "wss_close_code (frame_init\<lparr>opcode := 1, length_f := 2,
                                data := Some [Some 0x03, Some 0xE8, Some 0]\<rparr>) = Inr (- 1) \<and>
   wss_close_code (frame_init\<lparr>opcode := 8\<rparr>) = Inr 1005 \<and>
   wss_close_code (frame_init\<lparr>opcode := 8, length_f := 1,
                                data := Some [Some 0x03, Some 0]\<rparr>) = Inr 1005 \<and>
   wss_close_code (frame_init\<lparr>opcode := 8, length_f := 2,
                                data := Some [Some 0x03, Some 0xE8, Some 0]\<rparr>) = Inr 1000 \<and>
   wss_close_code (frame_init\<lparr>opcode := 8, length_f := 4,
                                data := Some [Some 0x03, Some 0xE9, Some 0x6F, Some 0x6B, Some 0]\<rparr>)
     = Inr 1001"
  using
    wss_close_code_decodes [of "frame_init\<lparr>opcode := 1, length_f := 2,
                                data := Some [Some 0x03, Some 0xE8, Some 0]\<rparr>"]
    wss_close_code_decodes [of "frame_init\<lparr>opcode := 8\<rparr>"]
    wss_close_code_decodes [of "frame_init\<lparr>opcode := 8, length_f := 1,
                                data := Some [Some 0x03, Some 0]\<rparr>"]
    wss_close_code_decodes [of "frame_init\<lparr>opcode := 8, length_f := 2,
                                data := Some [Some 0x03, Some 0xE8, Some 0]\<rparr>" "0x03" "0xE8" "[Some 0]"]
    wss_close_code_decodes [of "frame_init\<lparr>opcode := 8, length_f := 4,
                                data := Some [Some 0x03, Some 0xE9, Some 0x6F, Some 0x6B, Some 0]\<rparr>"
                               "0x03" "0xE9" "[Some 0x6F, Some 0x6B, Some 0]"]
  by (simp add: wss_frame_opcode_def wss_frame_payload_length_def wss_frame_payload_def
        frame_init_def WS_OPCODE_CLOSE_def)

subsection \<open>Draining a write\<close>

text \<open>
  C10. The claim: \<^verbatim>\<open>full_write\<close> sends each byte of the buffer once and in order,
  resuming after a short write where it stopped, and terminates when all bytes are sent
  or the descriptor fails. The loop shortens \<^verbatim>\<open>len\<close> and never advances \<^verbatim>\<open>buf\<close>: after
  a first write that takes 2 of the 3 bytes \<open>abc\<close>, the second write sends \<open>a\<close> again,
  so the descriptor receives \<open>aba\<close>. The loop has no exit for a failed write: on a
  descriptor where every write returns -1 the function does not return.
\<close>

theorem full_write_resends_from_start:
  "full_write (open_pipe\<lparr>room := (\<lambda>n. if n = 0 then 2 else 3)\<rparr>) [0x61, 0x62, 0x63] 3 =
     Some (0, open_pipe\<lparr>room := (\<lambda>n. if n = 0 then 2 else 3), calls := 2,
                        sent := [0x61, 0x62, 0x61]\<rparr>) \<and>
   full_write (open_pipe\<lparr>room := (\<lambda>n. - 1)\<rparr>) [0x61] 1 = None"
proof
  show "full_write (open_pipe\<lparr>room := (\<lambda>n. if n = 0 then 2 else 3)\<rparr>) [0x61, 0x62, 0x63] 3 =
     Some (0, open_pipe\<lparr>room := (\<lambda>n. if n = 0 then 2 else 3), calls := 2,
                        sent := [0x61, 0x62, 0x61]\<rparr>)"
    by (simp add: write_fd_def full_write_step full_write_done open_pipe_def Let_def)
  show "full_write (open_pipe\<lparr>room := (\<lambda>n. - 1)\<rparr>) [0x61] 1 = None"
    by (rule full_write_hard_failure)
qed

subsection \<open>The payload ceiling\<close>

lemma frame_internal_read_needs_input:
  "frame_internal_read p client frame2 = Inr (0, client1, frame2a) \<Longrightarrow> rfd client \<noteq> []"
  unfolding frame_internal_read_def Let_def
  by (auto split: if_splits prod.splits)

text \<open>
  The running total: when the frame whose header has just been completed fits under the
  ceiling, its payload is read, and it is a TEXT or BINARY frame without FIN, the loop
  goes on to the next frame with \<^verbatim>\<open>full_length\<close> increased by the length of this one.
\<close>

lemma full_length_accumulates:
  assumes hdr: "frame_internal_read p client frame2 = Inr (0, client1, frame2a)"
      and st: "state (deref p client1 frame2a) = WS_PARSE_PAYLOAD"
      and fits: "full_length + length_f (deref p client1 frame2a) \<le> maxlen"
      and pay: "(if length_f (deref p client1 frame2a) \<noteq> 0
                 then read_payload (alloc_ok heap) p client1 frame2a
                 else Inr (0, client1, frame2a)) = Inr (res2, client2, frame2b)"
      and ok: "0 \<le> res2"
      and unfinished: "\<not> fin (deref p client2 frame2b)"
                "uint (opcode (deref p client2 frame2b)) = WS_OPCODE_TEXT \<or>
                 uint (opcode (deref p client2 frame2b)) = WS_OPCODE_BINARY"
  shows "wss_read_loop maxlen pollms heap p client frame2 full_length ready =
           wss_read_loop maxlen pollms
             (if length_f (deref p client1 frame2a) \<noteq> 0 then tl heap else heap)
             Frame2 client2 frame_init
             (full_length + length_f (deref p client1 frame2a)) 0"
proof -
  from hdr have "rfd client \<noteq> []"
    by (rule frame_internal_read_needs_input)
  then have "\<And>t. poll_fd (rfd client) t = 1"
    by (simp add: poll_fd_def)
  with hdr st fits pay ok unfinished show ?thesis
    by (subst wss_read_loop.simps) (simp add: not_less)
qed

text \<open>
  The check itself, in any iteration of the loop: when \<^verbatim>\<open>frame_internal_read\<close> completes
  the header of the current frame and \<^verbatim>\<open>full_length\<close> plus the length decoded from that
  header is above the ceiling, \<^verbatim>\<open>wss_read\<close> returns -1 with close code 1009 and the
  client as the header read left it: \<^verbatim>\<open>read_payload\<close> has not run. The ceiling is a
  parameter, as the macro is the application's to define.
\<close>

lemma ceiling_check_on_decoded_length:
  assumes hdr: "frame_internal_read p client frame2 = Inr (0, client1, frame2a)"
      and st: "state (deref p client1 frame2a) = WS_PARSE_PAYLOAD"
      and big: "maxlen < full_length + length_f (deref p client1 frame2a)"
  shows "wss_read_loop maxlen pollms heap p client frame2 full_length ready =
           Inr (- 1, client1\<lparr>closecode := WS_CLOSE_LARGE_PAYLOAD\<rparr>)"
proof -
  from hdr have "rfd client \<noteq> []"
    by (rule frame_internal_read_needs_input)
  then have "\<And>t. poll_fd (rfd client) t = 1"
    by (simp add: poll_fd_def)
  with hdr st big show ?thesis
    by (subst wss_read_loop.simps) simp
qed

lemma replicate_numeral_unfold: "replicate (numeral k) x = x # replicate (pred_numeral k) x"
  by (simp add: numeral_eq_Suc)

text \<open>
  C8. The claim: for every sequence of frames forming one message, the total of the
  lengths declared so far, the current frame included, is checked against
  \<open>WS_MAX_PAYLOAD_LENGTH\<close> before the payload of a frame is read, and a total above the
  ceiling makes \<^verbatim>\<open>wss_read\<close> return -1 with close code 1009. The source compares what
  the parser decoded and what one call of \<^verbatim>\<open>wss_read\<close> has summed, and both fall short
  of what the frames declare.

  A masked TEXT frame whose 64-bit length field is \<open>00 00 00 00 01 90 00 01\<close> declares
  26214401 bytes, one more than the default ceiling of 25 MiB. The parser decodes the
  first four bytes only, so the frame has length 0: \<^verbatim>\<open>wss_read\<close> returns 1 with an empty
  TEXT frame and the close code untouched, and the payload stays on the descriptor.

  With the ceiling at 3, a message of 4 bytes comes as a TEXT frame without FIN
  carrying \<open>ab\<close>, an empty CONTINUATION frame without FIN, and a final CONTINUATION frame
  carrying \<open>cd\<close>. The loop goes on to the next frame only after a TEXT or BINARY frame
  without FIN, so the first call returns 1 after the second frame. The next call starts
  \<^verbatim>\<open>full_length\<close> at 0 again and reads \<open>cd\<close> as the payload of a frame of its own: it
  returns 1 as well, and no call answers with 1009. When the same 4 bytes come in
  two frames, the check does refuse the second.
\<close>

theorem declared_oversize_is_not_refused:
  "WS_MAX_PAYLOAD_LENGTH < 0x01900001 \<and>
   observe (wss_read WS_MAX_PAYLOAD_LENGTH heap
              (client\<lparr>rfd := [[0x81, 0xFF, 0, 0, 0, 0, 0x01, 0x90, 0x00, 0x01,
                                 1, 2, 3, 4, 0x60, 0x60]]\<rparr>) pollms 0) =
     Inr (1, wss_error_code client, 1, 0, None, [[0x60, 0x60]]) \<and>
   observe (wss_read 3 []
              (client\<lparr>rfd := [[0x01, 0x82, 0, 0, 0, 0, 0x61, 0x62,
                                 0x00, 0x80, 0, 0, 0, 0,
                                 0x80, 0x82, 0, 0, 0, 0, 0x63, 0x64]]\<rparr>) pollms 0) =
     Inr (1, wss_error_code client, 1, 2, Some [Some 0x61, Some 0x62, Some 0],
          [[0x80, 0x82, 0, 0, 0, 0, 0x63, 0x64]]) \<and>
   observe (wss_read 3 []
              (client\<lparr>rfd := [[0x80, 0x82, 0, 0, 0, 0, 0x63, 0x64]]\<rparr>) pollms 0) =
     Inr (1, wss_error_code client, 0, 4,
          Some [Some 0x63, Some 0x64, None, None, Some 0], []) \<and>
   observe (wss_read 3 []
              (client\<lparr>rfd := [[0x01, 0x82, 0, 0, 0, 0, 0x61, 0x62,
                                 0x80, 0x82, 0, 0, 0, 0, 0x63, 0x64]]\<rparr>) pollms 0) =
     Inr (- 1, 1009, 1, 2, Some [Some 0x61, Some 0x62, Some 0], [[0x63, 0x64]])"
  by (simp add: reader_defs replicate_numeral_unfold)

subsection \<open>A silent peer and a failed allocation\<close>

text \<open>
  \<^verbatim>\<open>read_payload\<close> reads without a \<^verbatim>\<open>poll\<close>: when the peer sends a header that declares
  two bytes, one byte, and then nothing, \<^verbatim>\<open>wss_read\<close> does not return. Nor does it when
  the caller says \<^verbatim>\<open>ready\<close> and nothing is to come. Without \<^verbatim>\<open>ready\<close> the \<^verbatim>\<open>poll\<close> times
  out and the result is 0; and when the peer closes instead of sending the second byte,
  the result is -1 with close code 1002.
\<close>

lemma silent_peer_blocks_read:
  "observe (wss_read WS_MAX_PAYLOAD_LENGTH []
              (client\<lparr>rfd := [[0x81, 0x82, 0, 0, 0, 0, 0x61]]\<rparr>) pollms 0) = Inl Blocked \<and>
   observe (wss_read WS_MAX_PAYLOAD_LENGTH heap (client\<lparr>rfd := []\<rparr>) pollms 1) = Inl Blocked \<and>
   observe (wss_read WS_MAX_PAYLOAD_LENGTH heap (client\<lparr>rfd := []\<rparr>) pollms 0) =
     Inr (0, wss_error_code client, 0, 0, None, []) \<and>
   observe (wss_read WS_MAX_PAYLOAD_LENGTH []
              (client\<lparr>rfd := [[0x81, 0x82, 0, 0, 0, 0, 0x61], []]\<rparr>) pollms 0) =
     Inr (- 1, 1002, 1, 2, Some [Some 0x61, None, Some 0], [])"
  by (simp add: reader_defs replicate_numeral_unfold)

text \<open>
  When \<^verbatim>\<open>malloc\<close> succeeds for the first fragment and \<^verbatim>\<open>realloc\<close> fails for the second,
  \<^verbatim>\<open>wss_read\<close> returns -1 and the client's frame still claims a payload of one byte, in
  storage that has been freed.
\<close>

lemma failed_realloc_leaves_freed_block:
  "observe (wss_read WS_MAX_PAYLOAD_LENGTH [True, False]
              (client\<lparr>rfd := [[0x01, 0x81, 0, 0, 0, 0, 0x61,
                                 0x80, 0x81, 0, 0, 0, 0, 0x62]]\<rparr>) pollms 0) =
     Inr (- 1, 1002, 1, 1, Some [], [[0x62]])"
  by (simp add: reader_defs free_block_def)

subsection \<open>Round trip: bytes, masks and byte order\<close>

lemma bit_80: "bit (0x80 :: byte) n \<longleftrightarrow> n = 7"
proof -
  have e: "(0x80 :: byte) = 2 ^ 7" by simp
  have "bit ((2::byte) ^ 7) n \<longleftrightarrow> n = 7"
    by (simp only: bit_exp_iff) (auto simp: possible_bit_word)
  then show ?thesis by (simp only: e)
qed

lemma bit_7f: "bit (0x7f :: byte) n \<longleftrightarrow> n < 7"
proof -
  have e: "(0x7f :: byte) = mask 7" by (simp add: mask_eq_exp_minus_1)
  show ?thesis unfolding e by (auto simp: bit_simps)
qed

lemma byte_or80_and7f: "(x OR 0x80) AND (0x7f :: byte) = x AND 0x7f"
  apply (rule bit_word_eqI)
  apply (simp only: bit_and_iff bit_or_iff bit_80 bit_7f)
  apply auto
  done

lemma byte_or80_and80: "(x OR 0x80) AND (0x80 :: byte) = 0x80"
  apply (rule bit_word_eqI)
  apply (simp only: bit_and_iff bit_or_iff bit_80)
  apply auto
  done

lemma byte_and7f_and80: "(x AND 0x7f) AND (0x80 :: byte) = 0"
  apply (rule bit_word_eqI)
  apply (simp only: bit_and_iff bit_80 bit_7f)
  apply auto
  done

lemma unat_and7f: "n < 128 \<Longrightarrow> unat ((of_nat n :: byte) AND 0x7f) = n"
proof -
  assume "n < 128"
  have e: "(0x7f :: byte) = mask 7" by (simp add: mask_eq_exp_minus_1)
  from \<open>n < 128\<close> show ?thesis unfolding e
    by (simp add: take_bit_eq_mask [symmetric] unsigned_take_bit_eq unat_of_nat take_bit_nat_eq_self)
qed

lemma and7f_idem: "(x AND 0x7f) AND (0x7f :: byte) = x AND 0x7f"
  by (simp add: and.assoc)

lemma length_xor_mask [simp]: "length (xor_mask k bs) = length bs"
  by (simp add: xor_mask_def)

lemma xor_mask_Nil [simp]: "xor_mask k P = [] \<longleftrightarrow> P = []"
  by (simp add: xor_mask_def)

text \<open>The unmasking loop XORs the cells from \<open>i\<close> up to \<open>n\<close> and leaves the others.\<close>

lemma unmask_range:
  "i \<le> n \<Longrightarrow> n \<le> length d \<Longrightarrow>
   unmask k d i n =
     take i d @ map (\<lambda>j. map_option (\<lambda>b. b XOR k ! (j mod 4)) (d ! j)) [i..<n] @ drop n d"
proof (induction k d i n rule: unmask.induct)
  case (1 k d i already)
  show ?case
  proof (cases "i < already")
    case False
    with "1.prems" show ?thesis by (subst unmask.simps) simp
  next
    case True
    let ?d = "d[i := map_option (\<lambda>b. b XOR k ! (i mod 4)) (d ! i)]"
    have "unmask k d i already = unmask k ?d (Suc i) already"
      using True by (simp add: unmask.simps [of k d i already])
    also have "\<dots> = take (Suc i) ?d @
        map (\<lambda>j. map_option (\<lambda>b. b XOR k ! (j mod 4)) (?d ! j)) [Suc i..<already] @ drop already ?d"
      using "1.IH" [OF True] True "1.prems" by simp
    also have "take (Suc i) ?d = take i d @ [map_option (\<lambda>b. b XOR k ! (i mod 4)) (d ! i)]"
      using True "1.prems" by (simp add: take_Suc_conv_app_nth)
    also have "map (\<lambda>j. map_option (\<lambda>b. b XOR k ! (j mod 4)) (?d ! j)) [Suc i..<already]
             = map (\<lambda>j. map_option (\<lambda>b. b XOR k ! (j mod 4)) (d ! j)) [Suc i..<already]"
      by (rule map_cong) auto
    also have "drop already ?d = drop already d"
      using True by simp
    finally show ?thesis
      using True by (simp add: upt_conv_Cons)
  qed
qed

text \<open>Masking invertibility: unmasking what the peer masked gives the payload back.\<close>

lemma unmask_xor_mask:
  "unmask k (map Some (xor_mask k P) @ [Some 0]) 0 (length P) = map Some P @ [Some 0]"
proof -
  have "unmask k (map Some (xor_mask k P) @ [Some 0]) 0 (length P) =
        map (\<lambda>j. map_option (\<lambda>b. b XOR k ! (j mod 4)) ((map Some (xor_mask k P) @ [Some 0]) ! j))
          [0..<length P] @ [Some 0]"
    by (subst unmask_range) simp_all
  also have "map (\<lambda>j. map_option (\<lambda>b. b XOR k ! (j mod 4)) ((map Some (xor_mask k P) @ [Some 0]) ! j))
          [0..<length P] = map (\<lambda>j. Some (P ! j)) [0..<length P]"
    by (rule map_cong) (auto simp: nth_append xor_mask_def xor.assoc)
  also have "\<dots> = map Some P"
    by (intro nth_equalityI) simp_all
  finally show ?thesis .
qed

lemma length_malloc_block [simp]: "length (malloc_block n) = n"
  by (simp add: malloc_block_def)

lemma malloc_block_terminated:
  "(malloc_block (Suc n))[n := c] = replicate n None @ [c]"
proof -
  have "malloc_block (Suc n) = replicate n None @ [None]"
    by (simp add: malloc_block_def replicate_append_same)
  moreover have "(replicate n None @ [None])[length (replicate n (None :: cell)) := c]
                 = replicate n None @ [c]"
    by (rule list_update_length)
  ultimately show ?thesis by simp
qed

lemmas header_defs =
  wss_read_def wss_read_loop.simps frame_internal_read_def read_payload_def
  read_payload_loop.simps
  case_INITIAL_def case_LENGTH_def case_XLENGTH_def case_XLENGTH2_def case_MASK_def
  WS_PARSE_NEXT_def add_datapos_def frame_init_def deref_def assign_def poll_fd_def
  poke_def opcode_defs
  WS_CLOSE_PROTOCOL_ERROR_def WS_CLOSE_LARGE_PAYLOAD_def WS_CLOSE_UNEXPECTED_def
  BIT0_def BIT1_def BIT2_def BIT3_def
  observe_def wss_error_code_def wss_frame_opcode_def wss_client_frame_def
  wss_frame_payload_length_def wss_frame_payload_def Let_def
  malloc_block_terminated unmask_xor_mask

text \<open>
  Reading one masked TEXT frame with FIN that arrives in one segment, for each of the
  three forms of the length field. The header bytes are arbitrary but for what the
  parser decodes from them.
\<close>

lemma read_text_empty:
  assumes "b1 AND 0x80 = 0x80" "unat (b1 AND 0x7f) = 0"
  shows "observe (wss_read maxlen heap
            (client\<lparr>rfd := [[0x81, b1, k0, k1, k2, k3]]\<rparr>) pollms 0) =
         Inr (1, wss_error_code client, 1, 0, None, [])"
  using assms by (simp add: header_defs)

lemma read_text_7bit:
  assumes "b1 AND 0x80 = 0x80" "unat (b1 AND 0x7f) = length P"
      and "length P \<le> 125" "P \<noteq> []" "length P \<le> maxlen" "alloc_ok heap"
  shows "observe (wss_read maxlen heap
            (client\<lparr>rfd := [0x81 # b1 # k0 # k1 # k2 # k3 # xor_mask [k0, k1, k2, k3] P]\<rparr>)
            pollms 0) =
         Inr (1, wss_error_code client, 1, length P, Some (map Some P @ [Some 0]), [])"
  using assms by (simp add: header_defs)

lemma read_text_16bit:
  assumes "ntohs (load_u32 (hi # lo # replicate 6 0)) = length P"
      and "P \<noteq> []" "length P \<le> maxlen" "alloc_ok heap"
  shows "observe (wss_read maxlen heap
            (client\<lparr>rfd := [0x81 # 0xFE # hi # lo # k0 # k1 # k2 # k3 #
                              xor_mask [k0, k1, k2, k3] P]\<rparr>) pollms 0) =
         Inr (1, wss_error_code client, 1, length P, Some (map Some P @ [Some 0]), [])"
  using assms by (simp add: header_defs)

lemma read_text_64bit:
  assumes "ntohl (load_u32 [e0, e1, e2, e3, e4, e5, e6, e7]) = length P"
      and "P \<noteq> []" "length P \<le> maxlen" "length P < 2 ^ 32" "alloc_ok heap"
  shows "observe (wss_read maxlen heap
            (client\<lparr>rfd := [0x81 # 0xFF # e0 # e1 # e2 # e3 # e4 # e5 # e6 # e7 #
                              k0 # k1 # k2 # k3 # xor_mask [k0, k1, k2, k3] P]\<rparr>) pollms 0) =
         Inr (1, wss_error_code client, 1, length P, Some (map Some P @ [Some 0]), [])"
  using assms by (simp add: header_defs)

lemma unat_byte_of_nat: "n < 256 \<Longrightarrow> unat (of_nat n :: byte) = n"
  by (simp add: unat_of_nat)

lemma be32_digits:
  assumes "b < 256" "c < 256" "d < 256"
  shows "be32 a b c d mod 256 = d"
    and "be32 a b c d div 256 mod 256 = c"
    and "be32 a b c d div 65536 mod 256 = b"
    and "be32 a b c d div 16777216 = a"
proof -
  have d1: "be32 a b c d div 256 = (a * 256 + b) * 256 + c"
    using assms by (simp add: be32_def)
  have d2: "be32 a b c d div 65536 = a * 256 + b"
  proof -
    have "be32 a b c d div 65536 = be32 a b c d div 256 div 256"
      by (simp add: div_mult2_eq [symmetric])
    with d1 assms show ?thesis by simp
  qed
  have d3: "be32 a b c d div 16777216 = a"
  proof -
    have "be32 a b c d div 16777216 = be32 a b c d div 65536 div 256"
      by (simp add: div_mult2_eq [symmetric])
    with d2 assms show ?thesis by simp
  qed
  show "be32 a b c d mod 256 = d"
    unfolding be32_def using assms by (subst mod_mult_self3) simp
  show "be32 a b c d div 256 mod 256 = c"
    unfolding d1 using assms by (subst mod_mult_self3) simp
  show "be32 a b c d div 65536 mod 256 = b" using assms by (simp add: d2)
  show "be32 a b c d div 16777216 = a" by (rule d3)
qed

lemma be32_of_nat:
  "be32 (n div 16777216) (n div 65536 mod 256) (n div 256 mod 256) (n mod 256) = n"
proof -
  have "n div 65536 = n div 256 div 256" "n div 16777216 = n div 256 div 256 div 256"
    by (simp_all add: div_mult2_eq [symmetric])
  then show ?thesis
    by (simp add: be32_def)
qed

lemma be32_less: "a < 256 \<Longrightarrow> b < 256 \<Longrightarrow> c < 256 \<Longrightarrow> d < 256 \<Longrightarrow> be32 a b c d < 2 ^ 32"
  by (simp add: be32_def)

lemma htonl_be32:
  assumes "a < 256" "b < 256" "c < 256" "d < 256"
  shows "htonl (be32 a b c d) = be32 d c b a"
proof -
  have "htonl (be32 a b c d) =
          (be32 a b c d mod 256) * 2 ^ 24 + (be32 a b c d div 256 mod 256) * 2 ^ 16
            + (be32 a b c d div 65536 mod 256) * 2 ^ 8 + be32 a b c d div 16777216"
    using be32_less [OF assms] by (simp add: htonl_def Let_def)
  also have "\<dots> = d * 2 ^ 24 + c * 2 ^ 16 + b * 2 ^ 8 + a"
    using assms by (simp only: be32_digits)
  finally show ?thesis by (simp add: be32_def)
qed

lemma store_u32_be32:
  assumes "b < 256" "c < 256" "d < 256"
  shows "store_u32 (be32 a b c d) = [of_nat d, of_nat c, of_nat b, of_nat (a mod 256)]"
  using assms by (simp add: store_u32_def be32_digits)

lemma load_u32_be32:
  assumes "a < 256" "b < 256" "c < 256" "d < 256"
  shows "load_u32 (of_nat a # of_nat b # of_nat c # of_nat d # rest) = be32 d c b a"
  using assms by (simp add: load_u32_def unat_byte_of_nat be32_def)

lemma store_u32_htonl:
  assumes "n < 2 ^ 32"
  shows "store_u32 (htonl n) =
           [of_nat (n div 16777216), of_nat (n div 65536 mod 256),
            of_nat (n div 256 mod 256), of_nat (n mod 256)]"
proof -
  from assms have a: "n div 16777216 < 256" by simp
  have "htonl n = htonl (be32 (n div 16777216) (n div 65536 mod 256) (n div 256 mod 256) (n mod 256))"
    by (simp only: be32_of_nat)
  also have "\<dots> = be32 (n mod 256) (n div 256 mod 256) (n div 65536 mod 256) (n div 16777216)"
    using a by (intro htonl_be32) simp_all
  finally show ?thesis
    using a by (simp add: store_u32_be32)
qed

lemma ntohl_load:
  assumes "n < 2 ^ 32"
  shows "ntohl (load_u32 (of_nat (n div 16777216) # of_nat (n div 65536 mod 256) #
                          of_nat (n div 256 mod 256) # of_nat (n mod 256) # rest)) = n"
proof -
  from assms have a: "n div 16777216 < 256" by simp
  have "load_u32 (of_nat (n div 16777216) # of_nat (n div 65536 mod 256) #
                  of_nat (n div 256 mod 256) # of_nat (n mod 256) # rest)
        = be32 (n mod 256) (n div 256 mod 256) (n div 65536 mod 256) (n div 16777216)"
    using a by (intro load_u32_be32) simp_all
  moreover have "htonl (be32 (n mod 256) (n div 256 mod 256) (n div 65536 mod 256) (n div 16777216))
        = be32 (n div 16777216) (n div 65536 mod 256) (n div 256 mod 256) (n mod 256)"
    using a by (intro htonl_be32) simp_all
  ultimately show ?thesis
    by (simp add: ntohl_def be32_of_nat)
qed

text \<open>
  What the XLENGTH2 case computes from the staged bytes: the big-endian value of the
  first four. The bytes after them do not occur in the result.
\<close>

lemma xlength2_decodes_four_bytes:
  "ntohl (load_u32 (e0 # e1 # e2 # e3 # rest)) = be32 (unat e0) (unat e1) (unat e2) (unat e3)"
proof -
  have b: "unat e0 < 256" "unat e1 < 256" "unat e2 < 256" "unat e3 < 256"
    using unsigned_less [of e0, where 'a = nat] unsigned_less [of e1, where 'a = nat]
          unsigned_less [of e2, where 'a = nat] unsigned_less [of e3, where 'a = nat]
    by simp_all
  have "load_u32 (e0 # e1 # e2 # e3 # rest) = be32 (unat e3) (unat e2) (unat e1) (unat e0)"
    by (simp add: load_u32_def be32_def)
  with b show ?thesis
    by (simp add: ntohl_def htonl_be32)
qed

lemma store_u16_htons:
  assumes "n < 65536"
  shows "store_u16 (htons n) = [of_nat (n div 256), of_nat (n mod 256)]"
proof -
  from assms have a: "n div 256 < 256" by simp
  have "htons n = (n mod 256) * 256 + n div 256"
    using assms by (simp add: htons_def)
  with a show ?thesis
    by (simp add: store_u16_def)
qed

lemma ntohs_load:
  assumes "n < 65536"
  shows "ntohs (load_u32 (of_nat (n div 256) # of_nat (n mod 256) # rest)) = n"
proof -
  from assms have a: "n div 256 < 256" by simp
  define c where "c = unat (rest ! 0) + 256 * unat (rest ! 1)"
  define v where "v = (n mod 256) * 256 + n div 256"
  have l: "load_u32 (of_nat (n div 256) # of_nat (n mod 256) # rest) = c * 65536 + v"
    using a by (simp add: load_u32_def unat_byte_of_nat c_def v_def)
  have "v < 65536"
    using a by (simp add: v_def)
  then have m: "v mod 65536 = v"
    by simp
  have v1: "v mod 256 = n div 256"
    unfolding v_def using a by (subst mod_mult_self3) simp
  have v2: "v div 256 = n mod 256"
    unfolding v_def using a by simp
  have "ntohs (c * 65536 + v) = (v mod 256) * 256 + v div 256"
    by (simp add: ntohs_def htons_def Let_def m)
  also have "\<dots> = n"
    by (simp add: v1 v2)
  finally show ?thesis
    by (simp only: l)
qed

text \<open>What \<^verbatim>\<open>wss_write\<close> puts on an open descriptor for a TEXT message.\<close>

lemma full_write_open_pipe:
  assumes "0 < n" "n \<le> 4294967296"
  shows "full_write \<lparr>room = (\<lambda>n. 4294967296), calls = c, sent = s\<rparr> b n =
           Some (0, \<lparr>room = (\<lambda>n. 4294967296), calls = Suc c, sent = s @ take n b\<rparr>)"
  using assms
  by (subst full_write_step) (simp_all add: write_fd_def Let_def min_def full_write_done)

lemmas write_defs =
  wss_write_def wss_frame_write_def opcode_defs BIT0_def poke_def open_pipe_def Let_def
  full_write_open_pipe full_write_done

lemma write_text_7bit:
  assumes "length P \<le> 125"
  shows "wss_write stk (server\<lparr>wfd := open_pipe\<rparr>) WS_OPCODE_TEXT (Some P) (length P) =
           Some (0, server\<lparr>wfd := open_pipe
                    \<lparr>calls := (if P = [] then 1 else 2),
                     sent := [0x81, of_nat (length P) AND 0x7f] @ P\<rparr>\<rparr>)"
  using assms by (cases "P = []") (simp_all add: write_defs)

lemma write_text_16bit:
  assumes "125 < length P" "length P \<le> 65535"
  shows "wss_write stk (server\<lparr>wfd := open_pipe\<rparr>) WS_OPCODE_TEXT (Some P) (length P) =
           Some (0, server\<lparr>wfd := open_pipe
                    \<lparr>calls := 2,
                     sent := [0x81, 126, of_nat (length P div 256), of_nat (length P mod 256)]
                             @ P\<rparr>\<rparr>)"
proof -
  from assms have "P \<noteq> []" "length P \<le> 4294967296" "length P < 65536"
    by auto
  with assms show ?thesis
    by (simp add: write_defs store_u16_htons)
qed

lemma write_text_64bit:
  assumes "65535 < length P" "length P < 2 ^ 32"
  shows "wss_write [s0, s1, s2, s3, s4, s5, s6, s7, s8, s9] (server\<lparr>wfd := open_pipe\<rparr>)
             WS_OPCODE_TEXT (Some P) (length P) =
           Some (0, server\<lparr>wfd := open_pipe
                    \<lparr>calls := 2,
                     sent := [0x81, 127,
                              of_nat (length P div 16777216), of_nat (length P div 65536 mod 256),
                              of_nat (length P div 256 mod 256), of_nat (length P mod 256),
                              s6, s7, s8, s9] @ P\<rparr>\<rparr>)"
proof -
  from assms have "P \<noteq> []" "length P \<le> 4294967296"
    by auto
  with assms show ?thesis
    by (simp add: write_defs store_u32_htonl)
qed

text \<open>A frame whose mask bit is clear is refused, whatever follows its first two bytes.\<close>

lemma read_unmasked:
  assumes "b1 AND 0x80 = 0"
  shows "\<exists>c. wss_read maxlen heap (client\<lparr>rfd := [0x81 # b1 # rest]\<rparr>) pollms 0 = Inr (- 1, c)
             \<and> wss_error_code c = 1002"
  using assms by (cases "rest = []") (simp_all add: header_defs)

subsection \<open>Round trip through a masking peer\<close>

lemma masked_7bit:
  assumes "n \<le> 125"
  shows "masked_by_peer k ([0x81, of_nat n AND 0x7f] @ P) =
           0x81 # ((of_nat n AND 0x7f) OR 0x80) # k @ xor_mask k P"
proof -
  from assms have "unat ((of_nat n :: byte) AND 0x7f) = n"
    by (intro unat_and7f) simp
  with assms show ?thesis
    by (simp add: masked_by_peer_def header_size_def and7f_idem)
qed

lemma masked_16bit:
  "masked_by_peer k ([0x81, 126, hi, lo] @ P) = 0x81 # 0xFE # hi # lo # k @ xor_mask k P"
  by (simp add: masked_by_peer_def header_size_def)

lemma masked_64bit:
  "masked_by_peer k ([0x81, 127, e0, e1, e2, e3, e4, e5, e6, e7] @ P) =
     0x81 # 0xFF # e0 # e1 # e2 # e3 # e4 # e5 # e6 # e7 # k @ xor_mask k P"
  by (simp add: masked_by_peer_def header_size_def)

text \<open>
  C6. The claim: what \<^verbatim>\<open>wss_write\<close> writes as a TEXT or BINARY frame, \<^verbatim>\<open>wss_read\<close> reads
  back with the same opcode, length and payload. As stated it fails: the writer never
  sets the mask bit and the reader refuses every frame without it, so the library cannot
  read its own frames (see the counterexample below); BINARY does not pass the opcode
  check at all (C2).

  What holds is the round trip through a peer that masks: for every payload \<open>P\<close> of at
  most \<open>WS_MAX_PAYLOAD_LENGTH\<close> bytes and every key, the TEXT frame that \<^verbatim>\<open>wss_write\<close>
  puts on an open descriptor (it returns 0), masked with the key and delivered in one
  segment, makes \<^verbatim>\<open>wss_read\<close> return 1 with opcode TEXT, length \<open>|P|\<close> and the payload
  \<open>P\<close> followed by the terminating zero (a null payload pointer when \<open>P\<close> is empty);
  the same frame delivered as written is refused with -1 and close code 1002.
  \<open>stk\<close> is the previous content of the writer's 10-byte header array, and the first
  allocation of the read succeeds.
\<close>

theorem text_round_trip_through_masking_peer:
  assumes len: "length P \<le> WS_MAX_PAYLOAD_LENGTH"
      and stk: "length stk = 10"
      and heap: "alloc_ok heap"
  shows "map_option fst
           (wss_write stk (server\<lparr>wfd := open_pipe\<rparr>) WS_OPCODE_TEXT (Some P) (length P))
           = Some 0 \<and>
         observe (wss_read WS_MAX_PAYLOAD_LENGTH heap
                    (client\<lparr>rfd := [masked_by_peer [k0, k1, k2, k3]
                       (wire_of (wss_write stk (server\<lparr>wfd := open_pipe\<rparr>)
                                   WS_OPCODE_TEXT (Some P) (length P)))]\<rparr>) pollms 0)
           = Inr (1, wss_error_code client, WS_OPCODE_TEXT, length P,
                  (if P = [] then None else Some (map Some P @ [Some 0])), []) \<and>
         (\<exists>c. wss_read WS_MAX_PAYLOAD_LENGTH heap
                 (client\<lparr>rfd := [wire_of (wss_write stk (server\<lparr>wfd := open_pipe\<rparr>)
                                   WS_OPCODE_TEXT (Some P) (length P))]\<rparr>) pollms 0
               = Inr (- 1, c) \<and> wss_error_code c = 1002)"
proof -
  from len have small: "length P < 2 ^ 32"
    by (simp add: WS_MAX_PAYLOAD_LENGTH_def)
  from stk obtain s0 s1 s2 s3 s4 s5 s6 s7 s8 s9
    where stk_eq: "stk = [s0, s1, s2, s3, s4, s5, s6, s7, s8, s9]"
    by (auto simp: numeral_eq_Suc length_Suc_conv)
  let ?w = "wss_write stk (server\<lparr>wfd := open_pipe\<rparr>) WS_OPCODE_TEXT (Some P) (length P)"
  consider (short) "length P \<le> 125"
    | (medium) "125 < length P" "length P \<le> 65535"
    | (long) "65535 < length P"
    by linarith
  then show ?thesis
  proof cases
    case short
    let ?b1 = "(of_nat (length P) AND 0x7f) OR (0x80 :: byte)"
    from short have n: "unat ((of_nat (length P) :: byte) AND 0x7f) = length P"
      by (intro unat_and7f) simp
    have w: "?w = Some (0, server\<lparr>wfd := open_pipe
                 \<lparr>calls := (if P = [] then 1 else 2),
                  sent := [0x81, of_nat (length P) AND 0x7f] @ P\<rparr>\<rparr>)"
      using short by (rule write_text_7bit)
    have m: "masked_by_peer [k0, k1, k2, k3] (wire_of ?w) =
               0x81 # ?b1 # k0 # k1 # k2 # k3 # xor_mask [k0, k1, k2, k3] P"
      using masked_7bit [OF short, of "[k0, k1, k2, k3]" P] by (simp add: w wire_of_def)
    have b: "?b1 AND 0x80 = 0x80" "unat (?b1 AND 0x7f) = length P"
      by (simp_all add: byte_or80_and80 byte_or80_and7f and7f_idem n)
    have r: "observe (wss_read WS_MAX_PAYLOAD_LENGTH heap
                (client\<lparr>rfd := [masked_by_peer [k0, k1, k2, k3] (wire_of ?w)]\<rparr>) pollms 0)
             = Inr (1, wss_error_code client, WS_OPCODE_TEXT, length P,
                    (if P = [] then None else Some (map Some P @ [Some 0])), [])"
    proof (cases "P = []")
      case True
      with b show ?thesis
        unfolding m
        using read_text_empty [where ?b1.0 = ?b1 and maxlen = WS_MAX_PAYLOAD_LENGTH and heap = heap
            and client = client and ?k0.0 = k0 and ?k1.0 = k1 and ?k2.0 = k2 and ?k3.0 = k3
            and pollms = pollms]
        by (simp add: WS_OPCODE_TEXT_def xor_mask_def)
    next
      case False
      with b short len heap show ?thesis
        unfolding m
        using read_text_7bit [where ?b1.0 = ?b1 and P = P and maxlen = WS_MAX_PAYLOAD_LENGTH and heap = heap
            and client = client and ?k0.0 = k0 and ?k1.0 = k1 and ?k2.0 = k2 and ?k3.0 = k3
            and pollms = pollms]
        by (simp add: WS_OPCODE_TEXT_def)
    qed
    have u: "\<exists>c. wss_read WS_MAX_PAYLOAD_LENGTH heap (client\<lparr>rfd := [wire_of ?w]\<rparr>) pollms 0
                  = Inr (- 1, c) \<and> wss_error_code c = 1002"
      using read_unmasked [where ?b1.0 = "of_nat (length P) AND 0x7f" and maxlen = WS_MAX_PAYLOAD_LENGTH
            and heap = heap and client = client and rest = P and pollms = pollms]
      by (simp add: w wire_of_def byte_and7f_and80)
    from r u show ?thesis by (simp add: w)
  next
    case medium
    let ?hi = "of_nat (length P div 256) :: byte" and ?lo = "of_nat (length P mod 256) :: byte"
    from medium have ne: "P \<noteq> []" by auto
    have w: "?w = Some (0, server\<lparr>wfd := open_pipe
                 \<lparr>calls := 2, sent := [0x81, 126, ?hi, ?lo] @ P\<rparr>\<rparr>)"
      using medium by (rule write_text_16bit)
    have m: "masked_by_peer [k0, k1, k2, k3] (wire_of ?w) =
               0x81 # 0xFE # ?hi # ?lo # k0 # k1 # k2 # k3 # xor_mask [k0, k1, k2, k3] P"
      using masked_16bit [of "[k0, k1, k2, k3]" ?hi ?lo P] by (simp add: w wire_of_def)
    have d: "ntohs (load_u32 (?hi # ?lo # replicate 6 0)) = length P"
      using medium by (intro ntohs_load) simp
    have r: "observe (wss_read WS_MAX_PAYLOAD_LENGTH heap
                (client\<lparr>rfd := [masked_by_peer [k0, k1, k2, k3] (wire_of ?w)]\<rparr>) pollms 0)
             = Inr (1, wss_error_code client, WS_OPCODE_TEXT, length P,
                    (if P = [] then None else Some (map Some P @ [Some 0])), [])"
      unfolding m
      using read_text_16bit [OF d ne len heap, where client = client and ?k0.0 = k0 and ?k1.0 = k1
            and ?k2.0 = k2 and ?k3.0 = k3 and pollms = pollms] ne
      by (simp add: WS_OPCODE_TEXT_def)
    have u: "\<exists>c. wss_read WS_MAX_PAYLOAD_LENGTH heap (client\<lparr>rfd := [wire_of ?w]\<rparr>) pollms 0
                  = Inr (- 1, c) \<and> wss_error_code c = 1002"
      using read_unmasked [where ?b1.0 = 126 and maxlen = WS_MAX_PAYLOAD_LENGTH and heap = heap
            and client = client and rest = "?hi # ?lo # P" and pollms = pollms]
      by (simp add: w wire_of_def)
    from r u show ?thesis by (simp add: w)
  next
    case long
    let ?e0 = "of_nat (length P div 16777216) :: byte"
    let ?e1 = "of_nat (length P div 65536 mod 256) :: byte"
    let ?e2 = "of_nat (length P div 256 mod 256) :: byte"
    let ?e3 = "of_nat (length P mod 256) :: byte"
    from long have ne: "P \<noteq> []" by auto
    have w: "?w = Some (0, server\<lparr>wfd := open_pipe
                 \<lparr>calls := 2,
                  sent := [0x81, 127, ?e0, ?e1, ?e2, ?e3, s6, s7, s8, s9] @ P\<rparr>\<rparr>)"
      unfolding stk_eq using long small by (rule write_text_64bit)
    have m: "masked_by_peer [k0, k1, k2, k3] (wire_of ?w) =
               0x81 # 0xFF # ?e0 # ?e1 # ?e2 # ?e3 # s6 # s7 # s8 # s9 #
               k0 # k1 # k2 # k3 # xor_mask [k0, k1, k2, k3] P"
      using masked_64bit [of "[k0, k1, k2, k3]" ?e0 ?e1 ?e2 ?e3 s6 s7 s8 s9 P]
      by (simp add: w wire_of_def)
    have d: "ntohl (load_u32 [?e0, ?e1, ?e2, ?e3, s6, s7, s8, s9]) = length P"
      using small by (rule ntohl_load)
    have r: "observe (wss_read WS_MAX_PAYLOAD_LENGTH heap
                (client\<lparr>rfd := [masked_by_peer [k0, k1, k2, k3] (wire_of ?w)]\<rparr>) pollms 0)
             = Inr (1, wss_error_code client, WS_OPCODE_TEXT, length P,
                    (if P = [] then None else Some (map Some P @ [Some 0])), [])"
      unfolding m
      using read_text_64bit [OF d ne len small heap, where client = client and ?k0.0 = k0 and ?k1.0 = k1
            and ?k2.0 = k2 and ?k3.0 = k3 and pollms = pollms] ne
      by (simp add: WS_OPCODE_TEXT_def)
    have u: "\<exists>c. wss_read WS_MAX_PAYLOAD_LENGTH heap (client\<lparr>rfd := [wire_of ?w]\<rparr>) pollms 0
                  = Inr (- 1, c) \<and> wss_error_code c = 1002"
      using read_unmasked [where ?b1.0 = 127 and maxlen = WS_MAX_PAYLOAD_LENGTH and heap = heap
            and client = client and rest = "?e0 # ?e1 # ?e2 # ?e3 # s6 # s7 # s8 # s9 # P"
            and pollms = pollms]
      by (simp add: w wire_of_def)
    from r u show ?thesis by (simp add: w)
  qed
qed

text \<open>
  The witness is the exchange of the repository's test: the server writes the TEXT
  message \<open>{hello there}\<close>, 13 bytes; here the frame is masked with the key
  \<open>12 34 56 78\<close> on its way.
\<close>

theorem text_round_trip_through_masking_peer_witness:
  "length (map of_char ''{hello there}'' :: byte list) \<le> WS_MAX_PAYLOAD_LENGTH \<and>
   length (replicate 10 (0 :: byte)) = 10 \<and>
   alloc_ok [] \<and>
   wss_write (replicate 10 0) (wss_client_new [] open_pipe) WS_OPCODE_TEXT
       (Some (map of_char ''{hello there}'')) 13 =
     Some (0, wss_client_new []
                (open_pipe\<lparr>calls := 2,
                           sent := [0x81, 0x0D] @ map of_char ''{hello there}''\<rparr>)) \<and>
   masked_by_peer [0x12, 0x34, 0x56, 0x78] ([0x81, 0x0D] @ map of_char ''{hello there}'') =
     [0x81, 0x8D, 0x12, 0x34, 0x56, 0x78,
      0x69, 0x5C, 0x33, 0x14, 0x7E, 0x5B, 0x76, 0x0C, 0x7A, 0x51, 0x24, 0x1D, 0x6F] \<and>
   observe (wss_read WS_MAX_PAYLOAD_LENGTH []
              (wss_client_new
                 [[0x81, 0x8D, 0x12, 0x34, 0x56, 0x78,
                   0x69, 0x5C, 0x33, 0x14, 0x7E, 0x5B, 0x76, 0x0C, 0x7A, 0x51, 0x24, 0x1D, 0x6F]]
                 open_pipe) 250 0) =
     Inr (1, 0, 1, 13, Some (map Some (map of_char ''{hello there}'') @ [Some 0]), [])"
proof -
  let ?P = "map of_char ''{hello there}'' :: byte list"
  let ?srv = "wss_client_new [] open_pipe"
  let ?W = "wss_write (replicate 10 0) (?srv\<lparr>wfd := open_pipe\<rparr>) WS_OPCODE_TEXT (Some ?P) (length ?P)"
  have h1: "length ?P \<le> WS_MAX_PAYLOAD_LENGTH"
    by (simp add: WS_MAX_PAYLOAD_LENGTH_def)
  have h2: "length (replicate 10 (0 :: byte)) = 10"
    by simp
  have h3: "alloc_ok []"
    by (simp add: alloc_ok_def)
  have len13: "length ?P = 13"
    by simp
  have srv: "?srv\<lparr>wfd := open_pipe\<rparr> = ?srv"
    by (simp add: wss_client_new_def)
  have w: "wss_write (replicate 10 0) ?srv WS_OPCODE_TEXT (Some ?P) 13
           = Some (0, wss_client_new []
                (open_pipe\<lparr>calls := 2, sent := [0x81, 0x0D] @ ?P\<rparr>))"
    by (simp add: writer_defs full_write_step full_write_done wss_client_new_def)
  have wo: "wire_of ?W = [0x81, 0x0D] @ ?P"
    unfolding srv len13 w by (simp add: wire_of_def wss_client_new_def)
  have m: "masked_by_peer [0x12, 0x34, 0x56, 0x78] ([0x81, 0x0D] @ ?P) =
     [0x81, 0x8D, 0x12, 0x34, 0x56, 0x78,
      0x69, 0x5C, 0x33, 0x14, 0x7E, 0x5B, 0x76, 0x0C, 0x7A, 0x51, 0x24, 0x1D, 0x6F]"
    by (simp add: masked_by_peer_def header_size_def xor_mask_def upt_rec_numeral)
  note T = text_round_trip_through_masking_peer
         [OF h1 h2 h3, where server = ?srv and client = ?srv and pollms = 250
            and ?k0.0 = "0x12" and ?k1.0 = "0x34" and ?k2.0 = "0x56" and ?k3.0 = "0x78"]
  from T have "observe (wss_read WS_MAX_PAYLOAD_LENGTH []
           (?srv\<lparr>rfd := [masked_by_peer [0x12, 0x34, 0x56, 0x78] (wire_of ?W)]\<rparr>) 250 0)
        = Inr (1, wss_error_code ?srv, WS_OPCODE_TEXT, length ?P,
               (if ?P = [] then None else Some (map Some ?P @ [Some 0])), [])"
    by (rule conjunct1 [OF conjunct2])
  then have r: "observe (wss_read WS_MAX_PAYLOAD_LENGTH []
              (wss_client_new
                 [[0x81, 0x8D, 0x12, 0x34, 0x56, 0x78,
                   0x69, 0x5C, 0x33, 0x14, 0x7E, 0x5B, 0x76, 0x0C, 0x7A, 0x51, 0x24, 0x1D, 0x6F]]
                 open_pipe) 250 0) =
     Inr (1, 0, 1, 13, Some (map Some ?P @ [Some 0]), [])"
    unfolding wo m
    by (simp add: wss_error_code_def wss_client_new_def WS_OPCODE_TEXT_def)
  from h1 h2 h3 w m r show ?thesis
    by (simp only: simp_thms)
qed

text \<open>
  The counterexample to the claim as stated, the first exchange of the repository's
  test: what \<^verbatim>\<open>wss_write\<close> sends for \<open>{hello there}\<close> is handed to \<^verbatim>\<open>wss_read\<close> as it
  is. The read fails with close code 1002 after the two header bytes, with the whole
  payload unread.
\<close>

theorem round_trip_of_own_frame_fails:
  "observe (wss_read WS_MAX_PAYLOAD_LENGTH []
              (wss_client_new
                 [wire_of (wss_write (replicate 10 0) (wss_client_new [] open_pipe)
                             WS_OPCODE_TEXT (Some (map of_char ''{hello there}'')) 13)]
                 open_pipe) 250 0) =
     Inr (- 1, 1002, 1, 0, None, [map of_char ''{hello there}''])"
  by (simp add: writer_defs full_write_step full_write_done wss_client_new_def wire_of_def
        reader_defs)

end
